theory Spec2Isabelle
  imports Complex_Main
begin

section \<open>JavaScript numbers\<close>

text \<open>
  A JavaScript number is a finite value, one of the two infinities, or NaN. Finite
  doubles are idealised as reals: clamping only compares and selects, it never rounds
  (the one sum, the volume step of \<open>changeVolumeBy\<close>, is taken exactly).
  \<open>Math.max\<close> and \<open>Math.min\<close> return NaN as soon as one argument is NaN.
\<close>

datatype jsnum = NaN | NegInf | Fin real | PosInf

fun js_max :: "jsnum \<Rightarrow> jsnum \<Rightarrow> jsnum" where
  "js_max NaN y = NaN"
| "js_max x NaN = NaN"
| "js_max PosInf y = PosInf"
| "js_max x PosInf = PosInf"
| "js_max NegInf y = y"
| "js_max x NegInf = x"
| "js_max (Fin a) (Fin b) = Fin (max a b)"

fun js_min :: "jsnum \<Rightarrow> jsnum \<Rightarrow> jsnum" where
  "js_min NaN y = NaN"
| "js_min x NaN = NaN"
| "js_min NegInf y = NegInf"
| "js_min x NegInf = NegInf"
| "js_min PosInf y = y"
| "js_min x PosInf = x"
| "js_min (Fin a) (Fin b) = Fin (min a b)"

text \<open>The errors a handler can raise: the two exceptions of the media element's
  \<open>volume\<close> setter (a non-finite value, a value outside \<open>[0, 1]\<close>).\<close>

datatype js_error = TypeError | IndexSizeError

section \<open>Player.jsx: the playback state machine\<close>

text \<open>
  The \<open>video\<close> element behind \<open>videoRef.current\<close>: the properties the component writes,
  and the method calls it issues, in order. What the browser does with a call comes back
  as an event.
\<close>

datatype media_call = Play | Pause | RemoveSrc | Load | SetSrc string

record video_el =
  el_volume :: real
  el_muted :: bool
  el_currentTime :: real
  el_duration :: jsnum
  el_calls :: "media_call list"

text \<open>The calls made on the hls.js instance created by the current run of the source
  effect (\<open>hls\<close> is a local variable of that run).\<close>

datatype hls_call = LoadSource string | AttachMedia | StartLoad | RecoverMediaError | Destroy

text \<open>\<open>data.type\<close> of an hls.js error event: the two types the handler names, and any other.\<close>

datatype hls_error_type = NETWORK_ERROR | MEDIA_ERROR | OTHER_TYPE string

text \<open>
  The component state: the \<open>useState\<close> cells that make up the player state, the video
  element reference (\<open>None\<close> while no \<open>video\<close> is rendered, that is while \<open>src\<close> is
  empty), the hls.js instance of the current effect run, and whether that run returned
  a cleanup function.
\<close>

record player =
  isPlaying :: bool
  isLoading :: bool
  error :: "string option"
  currentTime :: real
  duration :: jsnum
  volume :: real
  isMuted :: bool
  video :: "video_el option"
  hls :: "hls_call list option"
  has_cleanup :: bool

text \<open>The seven fields the specification calls PlayerState.\<close>

definition player_state ::
  "player \<Rightarrow> bool \<times> bool \<times> real \<times> bool \<times> string option \<times> real \<times> jsnum" where
  "player_state p =
     (isPlaying p, isLoading p, volume p, isMuted p, error p, currentTime p, duration p)"

definition hls_invoke :: "hls_call \<Rightarrow> player \<Rightarrow> player" where
  "hls_invoke c p = p\<lparr>hls := map_option (\<lambda>log. log @ [c]) (hls p)\<rparr>"

definition video_invoke :: "media_call \<Rightarrow> video_el \<Rightarrow> video_el" where
  "video_invoke c v = v\<lparr>el_calls := el_calls v @ [c]\<rparr>"

subsection \<open>The hls.js error handler (Player.jsx 204-220)\<close>

definition onHlsError :: "bool \<Rightarrow> hls_error_type \<Rightarrow> player \<Rightarrow> player" where
  "onHlsError fatal ty p =
     (if fatal then
        (case ty of
           NETWORK_ERROR \<Rightarrow> hls_invoke StartLoad p
         | MEDIA_ERROR \<Rightarrow> hls_invoke RecoverMediaError p
         | OTHER_TYPE _ \<Rightarrow>
             (hls_invoke Destroy p)\<lparr>error := Some ''Failed to load video'', isLoading := False\<rparr>)
      else p)"

subsection \<open>Volume and mute (Player.jsx 51-88)\<close>

definition toggleMute :: "player \<Rightarrow> player" where
  "toggleMute p =
     (case video p of
        None \<Rightarrow> p
      | Some v \<Rightarrow>
          (let m = \<not> el_muted v in
           if \<not> m \<and> el_volume v = 0
           then p\<lparr>isMuted := m, volume := 0.5, video := Some (v\<lparr>el_muted := m, el_volume := 0.5\<rparr>)\<rparr>
           else p\<lparr>isMuted := m, video := Some (v\<lparr>el_muted := m\<rparr>)\<rparr>))"

text \<open>
  \<open>video.volume = clamped\<close> goes through the element's setter, which raises a TypeError
  for a non-finite value and an IndexSizeError for a value outside \<open>[0, 1]\<close>; the
  statements after it are then not reached.
\<close>

definition setVolumeLevel :: "jsnum \<Rightarrow> player \<Rightarrow> js_error + player" where
  "setVolumeLevel newVolume p =
     (case video p of
        None \<Rightarrow> Inr p
      | Some v \<Rightarrow>
          (case js_min (Fin 1) (js_max (Fin 0) newVolume) of
             Fin clamped \<Rightarrow>
               if 0 \<le> clamped \<and> clamped \<le> 1 then
                 (let muted = (clamped = 0) in
                  Inr (p\<lparr>volume := clamped, isMuted := muted,
                         video := Some (v\<lparr>el_volume := clamped, el_muted := muted\<rparr>)\<rparr>))
               else Inl IndexSizeError
           | _ \<Rightarrow> Inl TypeError))"

text \<open>\<open>clamp\<close> as the specification words it, to compare with the source's
  \<open>Math.min(1, Math.max(0, v))\<close>.\<close>

definition clamp :: "real \<Rightarrow> real \<Rightarrow> real \<Rightarrow> real" where
  "clamp v lo hi = (if v < lo then lo else if hi < v then hi else v)"

text \<open>\<open>changeVolumeBy\<close>: \<open>videoRef.current?.volume ?? volume\<close> plus the step.\<close>

definition changeVolumeBy :: "real \<Rightarrow> player \<Rightarrow> js_error + player" where
  "changeVolumeBy delta p =
     setVolumeLevel (Fin ((case video p of None \<Rightarrow> volume p | Some v \<Rightarrow> el_volume v) + delta)) p"

definition togglePlayPause :: "player \<Rightarrow> player" where
  "togglePlayPause p =
     (case video p of
        None \<Rightarrow> p
      | Some v \<Rightarrow>
          if isPlaying p then p\<lparr>video := Some (video_invoke Pause v)\<rparr>
          else p\<lparr>video := Some (video_invoke Play v)\<rparr>)"

definition stopPlayback :: "player \<Rightarrow> player" where
  "stopPlayback p =
     (case video p of
        None \<Rightarrow> p
      | Some v \<Rightarrow>
          p\<lparr>isPlaying := False, video := Some ((video_invoke Pause v)\<lparr>el_currentTime := 0\<rparr>)\<rparr>)"

text \<open>The stored volume and mute flag mirror the element: the volume always, the flag
  whenever the volume is not 0 (at volume 0 the \<open>volumechange\<close> listener stores
  \<open>isMuted\<close> as true whatever the element's flag).\<close>

definition mirrors :: "player \<Rightarrow> bool" where
  "mirrors p =
     (case video p of
        None \<Rightarrow> True
      | Some v \<Rightarrow> volume p = el_volume v \<and> (el_volume v = 0 \<or> isMuted p = el_muted v))"

subsection \<open>The source effect (Player.jsx 175-290)\<close>

text \<open>
  What the effect asks of the browser: \<open>Hls.isSupported()\<close>, and whether
  \<open>video.canPlayType("application/vnd.apple.mpegurl")\<close> is a non-empty string.
\<close>

record browser =
  hls_supported :: bool
  native_hls :: bool

definition setupVideo :: "browser \<Rightarrow> string \<Rightarrow> video_el \<Rightarrow> player \<Rightarrow> player" where
  "setupVideo b src v p =
     (if hls_supported b then p\<lparr>hls := Some [LoadSource src, AttachMedia]\<rparr>
      else if native_hls b then p\<lparr>video := Some (video_invoke (SetSrc src) v), hls := None\<rparr>
      else p\<lparr>error := Some ''HLS is not supported in this browser'', isLoading := False,
             hls := None\<rparr>)"

text \<open>\<open>if (!video || !src) return;\<close> then the two resets and \<open>setupVideo()\<close>. \<open>src\<close> is
  \<open>selectedChannel?.url\<close>: undefined (\<open>None\<close>) or a string, and the empty string is
  falsy too.\<close>

definition src_effect :: "browser \<Rightarrow> string option \<Rightarrow> player \<Rightarrow> player" where
  "src_effect b src p =
     (case video p of
        None \<Rightarrow> p\<lparr>hls := None, has_cleanup := False\<rparr>
      | Some v \<Rightarrow>
          (case src of
             None \<Rightarrow> p\<lparr>hls := None, has_cleanup := False\<rparr>
           | Some s \<Rightarrow>
               if s = [] then p\<lparr>hls := None, has_cleanup := False\<rparr>
               else (setupVideo b s v (p\<lparr>isLoading := True, error := None\<rparr>))
                      \<lparr>has_cleanup := True\<rparr>))"

text \<open>The cleanup the effect returns: destroy the instance if there is one, then
  \<open>video.pause()\<close>, \<open>video.removeAttribute("src")\<close>, \<open>video.load()\<close>.\<close>

definition src_cleanup :: "player \<Rightarrow> player" where
  "src_cleanup p =
     (hls_invoke Destroy p)
       \<lparr>video := map_option
                   (\<lambda>v. video_invoke Load (video_invoke RemoveSrc (video_invoke Pause v)))
                   (video p)\<rparr>"

text \<open>The \<open>video\<close> element is rendered exactly while \<open>src\<close> is truthy; a newly rendered
  element has the browser's defaults and \<open>muted={false}\<close>.\<close>

definition new_video :: video_el where
  "new_video = \<lparr>el_volume = 1, el_muted = False, el_currentTime = 0, el_duration = NaN,
                 el_calls = []\<rparr>"

definition render_video :: "string option \<Rightarrow> player \<Rightarrow> player" where
  "render_video src p =
     (case src of
        None \<Rightarrow> p\<lparr>video := None\<rparr>
      | Some s \<Rightarrow>
          if s = [] then p\<lparr>video := None\<rparr>
          else (case video p of None \<Rightarrow> p\<lparr>video := Some new_video\<rparr> | Some _ \<Rightarrow> p))"

text \<open>A change of the \<open>src\<close> prop: the previous run's cleanup (on the element that run
  captured), the re-rendered element reference, then the effect with the new source.\<close>

definition onSrcChange :: "browser \<Rightarrow> string option \<Rightarrow> player \<Rightarrow> player" where
  "onSrcChange b src p =
     src_effect b src (render_video src (if has_cleanup p then src_cleanup p else p))"

text \<open>The component as first mounted: the initial values of its \<open>useState\<close> cells.\<close>

definition initial_player :: player where
  "initial_player =
     \<lparr>isPlaying = False, isLoading = True, error = None, currentTime = 0, duration = Fin 0,
      volume = 1, isMuted = False, video = None, hls = None, has_cleanup = False\<rparr>"

subsection \<open>Engine and element events (Player.jsx 195-202, 239-263)\<close>

text \<open>\<open>x || 0\<close> on a number: NaN and zero give 0.\<close>

definition or_zero :: "jsnum \<Rightarrow> jsnum" where
  "or_zero x = (case x of NaN \<Rightarrow> Fin 0 | _ \<Rightarrow> x)"

definition onManifestParsed :: "player \<Rightarrow> player" where
  "onManifestParsed p =
     p\<lparr>isLoading := False, video := map_option (video_invoke Play) (video p)\<rparr>"

definition onPlayRejected :: "player \<Rightarrow> player" where
  "onPlayRejected p = p\<lparr>isPlaying := False, isLoading := False\<rparr>"

definition handlePlay :: "player \<Rightarrow> player" where
  "handlePlay p = p\<lparr>isPlaying := True\<rparr>"

definition handlePause :: "player \<Rightarrow> player" where
  "handlePause p = p\<lparr>isPlaying := False\<rparr>"

definition handleWaiting :: "player \<Rightarrow> player" where
  "handleWaiting p = p\<lparr>isLoading := True\<rparr>"

definition handleCanPlay :: "player \<Rightarrow> player" where
  "handleCanPlay p =
     (case video p of
        None \<Rightarrow> p
      | Some v \<Rightarrow> p\<lparr>isLoading := False, duration := or_zero (el_duration v)\<rparr>)"

definition handleTimeUpdate :: "player \<Rightarrow> player" where
  "handleTimeUpdate p =
     (case video p of None \<Rightarrow> p | Some v \<Rightarrow> p\<lparr>currentTime := el_currentTime v\<rparr>)"

definition handleLoadedMetadata :: "player \<Rightarrow> player" where
  "handleLoadedMetadata p =
     (case video p of
        None \<Rightarrow> p
      | Some v \<Rightarrow>
          p\<lparr>duration := or_zero (el_duration v), volume := el_volume v, isMuted := el_muted v\<rparr>)"

definition handleVolumeChangeEvent :: "player \<Rightarrow> player" where
  "handleVolumeChangeEvent p =
     (case video p of
        None \<Rightarrow> p
      | Some v \<Rightarrow> p\<lparr>volume := el_volume v, isMuted := (el_muted v \<or> el_volume v = 0)\<rparr>)"

definition handleError :: "player \<Rightarrow> player" where
  "handleError p = p\<lparr>error := Some ''Failed to load video'', isLoading := False\<rparr>"

section \<open>IpTv.jsx: channel navigation\<close>

record channel =
  name :: string
  url :: string
  logo :: "string option"
  group :: string

text \<open>\<open>toLowerCase\<close> and \<open>toUpperCase\<close> on the letters A-Z and a-z; other characters stay.\<close>

definition lower_char :: "char \<Rightarrow> char" where
  "lower_char c =
     (let n = (of_char c :: nat) in if 65 \<le> n \<and> n \<le> 90 then char_of (n + 32) else c)"

definition upper_char :: "char \<Rightarrow> char" where
  "upper_char c =
     (let n = (of_char c :: nat) in if 97 \<le> n \<and> n \<le> 122 then char_of (n - 32) else c)"

definition toLowerCase :: "string \<Rightarrow> string" where
  "toLowerCase s = map lower_char s"

definition toUpperCase :: "string \<Rightarrow> string" where
  "toUpperCase s = map upper_char s"

fun startsWith :: "string \<Rightarrow> string \<Rightarrow> bool" where
  "startsWith s [] = True"
| "startsWith [] (y # ys) = False"
| "startsWith (x # xs) (y # ys) = (x = y \<and> startsWith xs ys)"

fun str_includes :: "string \<Rightarrow> string \<Rightarrow> bool" where
  "str_includes [] t = (t = [])"
| "str_includes (x # xs) t = (startsWith (x # xs) t \<or> str_includes xs t)"

definition filteredChannels :: "channel list \<Rightarrow> string \<Rightarrow> string \<Rightarrow> channel list" where
  "filteredChannels chs searchTerm category =
     filter (\<lambda>ch. str_includes (toLowerCase (name ch)) (toLowerCase searchTerm)
                  \<and> (category = ''All'' \<or> group ch = category)) chs"

text \<open>\<open>Array.prototype.findIndex\<close>: the first index whose element passes, or -1.\<close>

fun findIndex :: "('a \<Rightarrow> bool) \<Rightarrow> 'a list \<Rightarrow> int" where
  "findIndex P [] = -1"
| "findIndex P (x # xs) =
     (if P x then 0 else (let r = findIndex P xs in if r < 0 then -1 else r + 1))"

text \<open>\<open>ch.url === selectedChannel?.url\<close>: with no selection the right side is undefined
  and no url equals it.\<close>

definition getCurrentChannelIndex :: "channel list \<Rightarrow> channel option \<Rightarrow> int" where
  "getCurrentChannelIndex fc sel =
     findIndex (\<lambda>ch. case sel of None \<Rightarrow> False | Some s \<Rightarrow> url ch = url s) fc"

definition hasNextChannel :: "channel list \<Rightarrow> channel option \<Rightarrow> bool" where
  "hasNextChannel fc sel =
     (let currentIndex = getCurrentChannelIndex fc sel
      in currentIndex \<ge> 0 \<and> currentIndex < int (length fc) - 1)"

definition hasPrevChannel :: "channel list \<Rightarrow> channel option \<Rightarrow> bool" where
  "hasPrevChannel fc sel = (let currentIndex = getCurrentChannelIndex fc sel in currentIndex > 0)"

section \<open>IpTv.jsx: the remote-control host\<close>

text \<open>The values a peer message is made of.\<close>

datatype jsval =
  Undefined | Null | Boolean bool | Number jsnum | String string | Object "(string \<times> jsval) list"

text \<open>Reading a property, as \<open>message?.type\<close> and \<open>payload?.value\<close> do: a missing property,
  and any property of undefined, null or a primitive, is undefined.\<close>

fun get_prop :: "string \<Rightarrow> jsval \<Rightarrow> jsval" where
  "get_prop k (Object fs) = (case map_of fs k of None \<Rightarrow> Undefined | Some v \<Rightarrow> v)"
| "get_prop k v = Undefined"

fun typeof_number :: "jsval \<Rightarrow> bool" where
  "typeof_number (Number n) = True"
| "typeof_number v = False"

text \<open>The snapshot sent to a controller: \<open>{channel, player, nav}\<close>. \<open>player\<close> is the
  subset the Player reports through \<open>onPlayerStateChange\<close>.\<close>

record player_view =
  view_isPlaying :: bool
  view_volume :: real
  view_isMuted :: bool

record nav_view =
  hasNext :: bool
  hasPrev :: bool

record snapshot =
  snap_channel :: "channel option"
  snap_player :: player_view
  snap_nav :: nav_view

text \<open>A data connection object: its \<open>open\<close> flag, the messages handed to \<open>send\<close> (on
  the host the payloads of its \<open>state\<close> messages), and whether \<open>close()\<close> was called on
  it. Connections are compared by reference, so the state holds references (numbers)
  and a store from references to objects.\<close>

record 'm conn =
  conn_open :: bool
  sent :: "'m list"
  close_called :: bool

type_synonym conn_ref = nat

record host =
  channels :: "channel list"
  deferredSearchTerm :: string
  deferredCategory :: string
  selectedChannel :: "channel option"
  playerState :: player_view
  playerRef :: "player option"
  remoteSessionId :: string
  remoteHostStatus :: string
  remoteConnectedClients :: nat
  remoteError :: "string option"
  remotePeer :: "string option"
  remoteConnections :: "conn_ref list"
  conns :: "conn_ref \<Rightarrow> snapshot conn"
  stored_session_id :: "string option"

subsection \<open>Next and previous (IpTv.jsx 145-159)\<close>

text \<open>
  \<open>handleNextChannel\<close> and \<open>handlePrevChannel\<close> are callbacks of one render: they read
  that render's \<open>filteredChannels\<close> and \<open>selectedChannel\<close> (the parameters \<open>fc\<close> and
  \<open>sel\<close>) and call \<open>setSelectedChannel\<close> or return without a state change.
\<close>

definition handleNextChannel :: "channel list \<Rightarrow> channel option \<Rightarrow> host \<Rightarrow> host" where
  "handleNextChannel fc sel h =
     (if length fc = 0 then h
      else (let currentIndex = getCurrentChannelIndex fc sel
            in if currentIndex \<ge> 0 \<and> currentIndex < int (length fc) - 1
               then h\<lparr>selectedChannel := Some (fc ! nat (currentIndex + 1))\<rparr> else h))"

definition handlePrevChannel :: "channel list \<Rightarrow> channel option \<Rightarrow> host \<Rightarrow> host" where
  "handlePrevChannel fc sel h =
     (if length fc = 0 then h
      else (let currentIndex = getCurrentChannelIndex fc sel
            in if currentIndex > 0
               then h\<lparr>selectedChannel := Some (fc ! nat (currentIndex - 1))\<rparr> else h))"

text \<open>The filtered view of the current render, and the four navigation operations as
  the current render's callbacks: what the host's own buttons and keys invoke.\<close>

definition filtered_view :: "host \<Rightarrow> channel list" where
  "filtered_view h = filteredChannels (channels h) (deferredSearchTerm h) (deferredCategory h)"

definition next_channel :: "host \<Rightarrow> host" where
  "next_channel h = handleNextChannel (filtered_view h) (selectedChannel h) h"

definition prev_channel :: "host \<Rightarrow> host" where
  "prev_channel h = handlePrevChannel (filtered_view h) (selectedChannel h) h"

definition has_next :: "host \<Rightarrow> bool" where
  "has_next h = hasNextChannel (filtered_view h) (selectedChannel h)"

definition has_prev :: "host \<Rightarrow> bool" where
  "has_prev h = hasPrevChannel (filtered_view h) (selectedChannel h)"

subsection \<open>Commands applied to the mounted Player (IpTv.jsx 161-183)\<close>

text \<open>\<open>playerRef.current?.m()\<close>: nothing happens while no Player is mounted.\<close>

definition with_player :: "(player \<Rightarrow> js_error + player) \<Rightarrow> host \<Rightarrow> js_error + host" where
  "with_player m h =
     (case playerRef h of
        None \<Rightarrow> Inr h
      | Some p \<Rightarrow> (case m p of Inl e \<Rightarrow> Inl e | Inr p' \<Rightarrow> Inr (h\<lparr>playerRef := Some p'\<rparr>)))"

definition remotePlayPause :: "host \<Rightarrow> js_error + host" where
  "remotePlayPause h = with_player (\<lambda>p. Inr (togglePlayPause p)) h"

definition remoteStop :: "host \<Rightarrow> js_error + host" where
  "remoteStop h = with_player (\<lambda>p. Inr (stopPlayback p)) h"

definition remoteMuteToggle :: "host \<Rightarrow> js_error + host" where
  "remoteMuteToggle h = with_player (\<lambda>p. Inr (toggleMute p)) h"

definition remoteVolumeUp :: "host \<Rightarrow> js_error + host" where
  "remoteVolumeUp h = with_player (changeVolumeBy 0.1) h"

definition remoteVolumeDown :: "host \<Rightarrow> js_error + host" where
  "remoteVolumeDown h = with_player (changeVolumeBy (- 0.1)) h"

definition remoteVolumeChange :: "jsnum \<Rightarrow> host \<Rightarrow> js_error + host" where
  "remoteVolumeChange v h = with_player (setVolumeLevel v) h"

subsection \<open>Command dispatch (IpTv.jsx 185-228)\<close>

text \<open>
  \<open>handleRemoteCommand\<close> is a callback of one render: its \<open>handleNextChannel\<close> and
  \<open>handlePrevChannel\<close> read the \<open>filteredChannels\<close> and \<open>selectedChannel\<close> of that render.
  The Player is reached through the reference, which is always current. The \<open>switch\<close>
  compares with \<open>===\<close>, so only a string selects a case.
\<close>

definition handleRemoteCommand ::
  "channel list \<Rightarrow> channel option \<Rightarrow> jsval \<Rightarrow> jsval \<Rightarrow> host \<Rightarrow> js_error + host" where
  "handleRemoteCommand fc sel command payload h =
     (if command = String ''next'' then Inr (handleNextChannel fc sel h)
      else if command = String ''prev'' then Inr (handlePrevChannel fc sel h)
      else if command = String ''toggle-play'' then remotePlayPause h
      else if command = String ''stop'' then remoteStop h
      else if command = String ''toggle-mute'' then remoteMuteToggle h
      else if command = String ''volume-up'' then remoteVolumeUp h
      else if command = String ''volume-down'' then remoteVolumeDown h
      else if command = String ''set-volume'' then
        (case get_prop ''value'' payload of
           Number v \<Rightarrow> remoteVolumeChange v h
         | _ \<Rightarrow> Inr h)
      else Inr h)"

subsection \<open>Snapshots and broadcast (IpTv.jsx 230-251)\<close>

definition make_snapshot :: "channel list \<Rightarrow> channel option \<Rightarrow> player_view \<Rightarrow> snapshot" where
  "make_snapshot fc sel ps =
     \<lparr>snap_channel = sel, snap_player = ps,
      snap_nav = \<lparr>hasNext = hasNextChannel fc sel, hasPrev = hasPrevChannel fc sel\<rparr>\<rparr>"

text \<open>\<open>sendStateToConnection\<close> on the store of connection objects. The snapshot is what
  the callback's render holds.\<close>

definition sendStateToConnection ::
  "snapshot \<Rightarrow> conn_ref \<Rightarrow> (conn_ref \<Rightarrow> snapshot conn) \<Rightarrow> (conn_ref \<Rightarrow> snapshot conn)" where
  "sendStateToConnection snap c store =
     (if \<not> conn_open (store c) then store
      else store(c := (store c)\<lparr>sent := sent (store c) @ [snap]\<rparr>))"

text \<open>The snapshot of the current render: the effect that broadcasts runs again
  whenever \<open>selectedChannel\<close>, \<open>playerState\<close> or the filtered list changes.\<close>

definition current_snapshot :: "host \<Rightarrow> snapshot" where
  "current_snapshot h =
     make_snapshot (filtered_view h) (selectedChannel h) (playerState h)"

definition broadcastRemoteState :: "host \<Rightarrow> host" where
  "broadcastRemoteState h =
     (if length (remoteConnections h) = 0 then h
      else h\<lparr>conns := fold (sendStateToConnection (current_snapshot h))
                          (remoteConnections h) (conns h)\<rparr>)"

subsection \<open>Starting and stopping the host (IpTv.jsx 39-40, 65-67, 253-312)\<close>

text \<open>\<open>s.slice(2, 8)\<close>.\<close>

definition slice_2_8 :: "string \<Rightarrow> string" where
  "slice_2_8 s = take 6 (drop 2 s)"

text \<open>\<open>generateSessionId\<close>, given the string \<open>Math.random().toString(36)\<close>: for a number
  in \<open>[0, 1)\<close> that is \<open>0\<close>, or \<open>0.\<close> followed by the base-36 digits of the number, as
  many as the number needs.\<close>

definition generateSessionId :: "string \<Rightarrow> string" where
  "generateSessionId random36 = toUpperCase (slice_2_8 random36)"

definition close_conn :: "conn_ref \<Rightarrow> (conn_ref \<Rightarrow> snapshot conn) \<Rightarrow> (conn_ref \<Rightarrow> snapshot conn)" where
  "close_conn c store = store(c := (store c)\<lparr>close_called := True\<rparr>)"

definition stopRemoteHost :: "string \<Rightarrow> host \<Rightarrow> host" where
  "stopRemoteHost nextStatus h =
     h\<lparr>conns := fold close_conn (remoteConnections h) (conns h),
       remoteConnections := [],
       remoteConnectedClients := 0,
       remotePeer := None,
       remoteHostStatus := nextStatus\<rparr>"

text \<open>\<open>startRemoteHost\<close>; \<open>remotePeer\<close> holds the id given to \<open>new Peer\<close>, and
  \<open>stored_session_id\<close> is the local-storage entry under \<open>iptv-remote-session-id\<close>.\<close>

definition startRemoteHost :: "string \<Rightarrow> host \<Rightarrow> host" where
  "startRemoteHost random36 h =
     (case remotePeer h of
        Some _ \<Rightarrow> h\<lparr>remoteHostStatus := ''ready''\<rparr>
      | None \<Rightarrow>
          (let id = (if remoteSessionId h \<noteq> [] then remoteSessionId h
                     else generateSessionId random36)
           in h\<lparr>remoteSessionId := id, stored_session_id := Some id,
                remoteHostStatus := ''connecting'', remoteError := None,
                remotePeer := Some id\<rparr>))"

text \<open>The host component as mounted, over the local storage it finds:
  \<open>localStorage.getItem(REMOTE_SESSION_STORAGE_KEY) || ""\<close>.\<close>

definition initial_host :: "string option \<Rightarrow> host" where
  "initial_host stored =
     \<lparr>channels = [], deferredSearchTerm = [], deferredCategory = ''All'',
      selectedChannel = None,
      playerState = \<lparr>view_isPlaying = False, view_volume = 1, view_isMuted = False\<rparr>,
      playerRef = None,
      remoteSessionId = (case stored of None \<Rightarrow> [] | Some s \<Rightarrow> s),
      remoteHostStatus = ''inactive'', remoteConnectedClients = 0, remoteError = None,
      remotePeer = None, remoteConnections = [],
      conns = (\<lambda>c. \<lparr>conn_open = False, sent = [], close_called = False\<rparr>),
      stored_session_id = stored\<rparr>"

subsection \<open>Controller connections (IpTv.jsx 283-306)\<close>

text \<open>A \<open>connection\<close> event: the handle is pushed, the count follows, and a snapshot is
  sent if the connection is already open. \<open>snap\<close> is the snapshot of the render in which
  \<open>startRemoteHost\<close> ran.\<close>

definition onConnection :: "snapshot \<Rightarrow> conn_ref \<Rightarrow> host \<Rightarrow> host" where
  "onConnection snap c h =
     h\<lparr>remoteConnections := remoteConnections h @ [c],
       remoteConnectedClients := length (remoteConnections h @ [c]),
       conns := sendStateToConnection snap c (conns h)\<rparr>"

definition cleanupConnection :: "conn_ref \<Rightarrow> host \<Rightarrow> host" where
  "cleanupConnection c h =
     h\<lparr>remoteConnections := filter (\<lambda>c'. c' \<noteq> c) (remoteConnections h),
       remoteConnectedClients := length (filter (\<lambda>c'. c' \<noteq> c) (remoteConnections h))\<rparr>"

text \<open>The \<open>data\<close> handler of a connection, with the values its render holds.\<close>

definition onData ::
  "channel list \<Rightarrow> channel option \<Rightarrow> player_view \<Rightarrow> conn_ref \<Rightarrow> jsval \<Rightarrow> host
     \<Rightarrow> js_error + host" where
  "onData fc sel ps c message h =
     (if get_prop ''type'' message = String ''command'' then
        handleRemoteCommand fc sel (get_prop ''command'' message) (get_prop ''payload'' message) h
      else if get_prop ''type'' message = String ''remote-ready'' then
        Inr (h\<lparr>conns := sendStateToConnection (make_snapshot fc sel ps) c (conns h)\<rparr>)
      else Inr h)"

text \<open>The Player reports its state after a render in which it changed.\<close>

definition onPlayerStateChange :: "host \<Rightarrow> host" where
  "onPlayerStateChange h =
     (case playerRef h of
        None \<Rightarrow> h
      | Some p \<Rightarrow>
          h\<lparr>playerState := \<lparr>view_isPlaying = isPlaying p, view_volume = volume p,
                              view_isMuted = isMuted p\<rparr>\<rparr>)"

section \<open>App.jsx: the controller page\<close>

text \<open>A message from the host as the \<open>data\<close> handler sees it: \<open>type\<close> is \<open>"state"\<close> and the
  payload is the snapshot, or it is something else.\<close>

datatype host_message = State snapshot | NotState

record controller =
  clientId :: string
  targetSession :: string
  connectionStatus :: string
  hostState :: snapshot
  has_peer :: bool
  connectionRef :: "conn_ref option"
  links :: "conn_ref \<Rightarrow> jsval conn"

definition initial_controller :: "string \<Rightarrow> controller" where
  "initial_controller paramSessionId =
     \<lparr>clientId = [], targetSession = paramSessionId, connectionStatus = ''initializing'',
      hostState = \<lparr>snap_channel = None,
                   snap_player = \<lparr>view_isPlaying = False, view_volume = 1, view_isMuted = False\<rparr>,
                   snap_nav = \<lparr>hasNext = False, hasPrev = False\<rparr>\<rparr>,
      has_peer = False, connectionRef = None,
      links = (\<lambda>c. \<lparr>conn_open = False, sent = [], close_called = False\<rparr>)\<rparr>"

definition destroyConnection :: "controller \<Rightarrow> controller" where
  "destroyConnection c =
     (case connectionRef c of
        None \<Rightarrow> c
      | Some r \<Rightarrow> c\<lparr>links := (links c)(r := (links c r)\<lparr>close_called := True\<rparr>),
                     connectionRef := None\<rparr>)"

text \<open>\<open>connectToSession\<close>; \<open>r\<close> is the connection object \<open>peer.connect\<close> returns.\<close>

definition connectToSession :: "string \<Rightarrow> conn_ref \<Rightarrow> controller \<Rightarrow> controller" where
  "connectToSession sessionId r c =
     (if \<not> has_peer c \<or> sessionId = [] then c
      else (destroyConnection c)\<lparr>connectionStatus := ''connecting'', connectionRef := Some r\<rparr>)"

text \<open>The \<open>open\<close> handler of connection \<open>r\<close>; the connection is open when the event is
  emitted.\<close>

definition onConnOpen :: "conn_ref \<Rightarrow> controller \<Rightarrow> controller" where
  "onConnOpen r c =
     c\<lparr>connectionStatus := ''connected'',
       links := (links c)(r := (links c r)
                  \<lparr>conn_open := True,
                   sent := sent (links c r) @ [Object [(''type'', String ''remote-ready'')]]\<rparr>)\<rparr>"

definition onConnData :: "host_message \<Rightarrow> controller \<Rightarrow> controller" where
  "onConnData message c = (case message of State payload \<Rightarrow> c\<lparr>hostState := payload\<rparr> | NotState \<Rightarrow> c)"

text \<open>The \<open>close\<close> handler of connection \<open>r\<close> (App.jsx 70-80).\<close>

definition onConnClose :: "conn_ref \<Rightarrow> controller \<Rightarrow> controller" where
  "onConnClose r c =
     c\<lparr>connectionRef := (if connectionRef c = Some r then None else connectionRef c),
       connectionStatus := ''disconnected'',
       hostState := (hostState c)\<lparr>snap_channel := None,
                                  snap_nav := \<lparr>hasNext = False, hasPrev = False\<rparr>\<rparr>\<rparr>"

definition onConnError :: "conn_ref \<Rightarrow> controller \<Rightarrow> controller" where
  "onConnError r c =
     c\<lparr>connectionRef := (if connectionRef c = Some r then None else connectionRef c),
       connectionStatus := ''error''\<rparr>"

text \<open>\<open>sendCommand\<close> (App.jsx 114-117) and the eight senders handed to the remote
  control (App.jsx 181-188).\<close>

definition sendCommand :: "string \<Rightarrow> jsval \<Rightarrow> controller \<Rightarrow> controller" where
  "sendCommand command payload c =
     (case connectionRef c of
        None \<Rightarrow> c
      | Some r \<Rightarrow>
          if \<not> conn_open (links c r) then c
          else c\<lparr>links := (links c)(r := (links c r)
                   \<lparr>sent := sent (links c r)
                       @ [Object [(''type'', String ''command''), (''command'', String command),
                                  (''payload'', payload)]]\<rparr>)\<rparr>)"

datatype sender =
  OnNext | OnPrev | OnPlayPause | OnStop | OnMuteToggle | OnVolumeUp | OnVolumeDown
  | OnVolumeChange jsnum

fun invoke_sender :: "sender \<Rightarrow> controller \<Rightarrow> controller" where
  "invoke_sender OnNext c = sendCommand ''next'' Undefined c"
| "invoke_sender OnPrev c = sendCommand ''prev'' Undefined c"
| "invoke_sender OnPlayPause c = sendCommand ''toggle-play'' Undefined c"
| "invoke_sender OnStop c = sendCommand ''stop'' Undefined c"
| "invoke_sender OnMuteToggle c = sendCommand ''toggle-mute'' Undefined c"
| "invoke_sender OnVolumeUp c = sendCommand ''volume-up'' Undefined c"
| "invoke_sender OnVolumeDown c = sendCommand ''volume-down'' Undefined c"
| "invoke_sender (OnVolumeChange v) c =
     sendCommand ''set-volume'' (Object [(''value'', Number v)]) c"

section \<open>The anchor of navigation\<close>

text \<open>The anchor of navigation, in the specification's words: the selection's position
  in the filtered view by url equality. It is present at index \<open>i\<close> when the element at
  \<open>i\<close> has the selection's url and no earlier element has it; it is absent when nothing
  is selected or no element of the view has the selection's url.\<close>

definition anchored_at :: "host \<Rightarrow> nat \<Rightarrow> bool" where
  "anchored_at h i =
     (case selectedChannel h of
        None \<Rightarrow> False
      | Some s \<Rightarrow> i < length (filtered_view h) \<and> url (filtered_view h ! i) = url s
                  \<and> list_all (\<lambda>ch. url ch \<noteq> url s) (take i (filtered_view h)))"

definition anchor_absent :: "host \<Rightarrow> bool" where
  "anchor_absent h =
     (case selectedChannel h of
        None \<Rightarrow> True
      | Some s \<Rightarrow> list_all (\<lambda>ch. url ch \<noteq> url s) (filtered_view h))"

section \<open>Predicates of the statements\<close>

text \<open>The characters of a base-36 expansion (\<open>0-9\<close>, \<open>a-z\<close>), the uppercase alphanumeric
  characters (\<open>0-9\<close>, \<open>A-Z\<close>), and the strings \<open>Number.prototype.toString(36)\<close> gives for
  a number in \<open>[0, 1)\<close>.\<close>

definition is_base36_digit :: "char \<Rightarrow> bool" where
  "is_base36_digit c =
     (let n = (of_char c :: nat) in (48 \<le> n \<and> n \<le> 57) \<or> (97 \<le> n \<and> n \<le> 122))"

definition is_upper_alnum :: "char \<Rightarrow> bool" where
  "is_upper_alnum c =
     (let n = (of_char c :: nat) in (48 \<le> n \<and> n \<le> 57) \<or> (65 \<le> n \<and> n \<le> 90))"

definition is_random36 :: "string \<Rightarrow> bool" where
  "is_random36 r =
     (r = ''0'' \<or> (take 2 r = ''0.'' \<and> drop 2 r \<noteq> [] \<and> list_all is_base36_digit (drop 2 r)))"

text \<open>No connection, or a connection that is not open.\<close>

definition not_connected :: "controller \<Rightarrow> bool" where
  "not_connected c =
     (case connectionRef c of None \<Rightarrow> True | Some r \<Rightarrow> \<not> conn_open (links c r))"

section \<open>Example states\<close>

text \<open>A Player in the middle of a programme: playing source \<open>a\<close> through hls.js, 42
  seconds in, at volume 0.3.\<close>

definition watching :: player where
  "watching =
     \<lparr>isPlaying = True, isLoading = False, error = None, currentTime = 42, duration = Fin 100,
      volume = 0.3, isMuted = False,
      video = Some \<lparr>el_volume = 0.3, el_muted = False, el_currentTime = 42,
                     el_duration = Fin 100, el_calls = [Play]\<rparr>,
      hls = Some [LoadSource ''a'', AttachMedia], has_cleanup = True\<rparr>"

definition hlsjs_browser :: browser where
  "hlsjs_browser = \<lparr>hls_supported = True, native_hls = False\<rparr>"

text \<open>The scenario of the specification: channels \<open>a\<close>, \<open>b\<close>, \<open>c\<close>, no filter, \<open>b\<close> selected.\<close>

definition ch_a :: channel where
  "ch_a = \<lparr>name = ''A'', url = ''a'', logo = None, group = ''News''\<rparr>"

definition ch_b :: channel where
  "ch_b = \<lparr>name = ''B'', url = ''b'', logo = None, group = ''News''\<rparr>"

definition ch_c :: channel where
  "ch_c = \<lparr>name = ''C'', url = ''c'', logo = None, group = ''Sport''\<rparr>"

definition abc_host :: host where
  "abc_host = (initial_host None)\<lparr>channels := [ch_a, ch_b, ch_c], selectedChannel := Some ch_b\<rparr>"

text \<open>A host with the three channels, \<open>b\<close> selected and playing in the mounted Player.\<close>

definition tv_host :: host where
  "tv_host = abc_host\<lparr>playerRef := Some watching\<rparr>"

text \<open>The eight commands of the protocol.\<close>

definition known_commands :: "jsval list" where
  "known_commands =
     [String ''next'', String ''prev'', String ''toggle-play'', String ''stop'',
      String ''toggle-mute'', String ''volume-up'', String ''volume-down'',
      String ''set-volume'']"

text \<open>The same host sharing under the code \<open>AB12CD\<close>, with three registered
  connections: 1 and 2 open, 3 not open yet.\<close>

definition shared_host :: host where
  "shared_host =
     tv_host\<lparr>remoteSessionId := ''AB12CD'', remoteHostStatus := ''ready'',
              remoteConnectedClients := 3, remotePeer := Some ''AB12CD'',
              remoteConnections := [1, 2, 3],
              conns := (\<lambda>c. \<lparr>conn_open = (c = 1 \<or> c = 2), sent = [], close_called = False\<rparr>),
              stored_session_id := Some ''AB12CD''\<rparr>"

text \<open>A controller page whose peer is open, and the same page after \<open>connectToSession\<close>,
  before the connection (object 7) has opened.\<close>

definition idle_controller :: controller where
  "idle_controller =
     (initial_controller ''AB12CD'')\<lparr>clientId := ''c1'', connectionStatus := ''idle'',
                                     has_peer := True\<rparr>"

definition connecting_controller :: controller where
  "connecting_controller = connectToSession ''AB12CD'' 7 idle_controller"

section \<open>The engine error policy\<close>

lemma player_state_hls_invoke: "player_state (hls_invoke c p) = player_state p"
  by (simp add: player_state_def hls_invoke_def)

text \<open>
  C1. The hls.js error handler follows the policy table. A non-fatal error changes
  nothing. A fatal network error calls \<open>startLoad\<close> on the instance and a fatal media
  error calls \<open>recoverMediaError\<close>, and neither changes a field of the player state.
  A fatal error of any other type calls \<open>destroy\<close>, sets \<open>error\<close> to the message
  "Failed to load video" and \<open>isLoading\<close> to false, and changes no other field.
\<close>

theorem onHlsError_policy:
  "onHlsError False ty p = p
   \<and> onHlsError True NETWORK_ERROR p = hls_invoke StartLoad p
   \<and> player_state (onHlsError True NETWORK_ERROR p) = player_state p
   \<and> hls (onHlsError True NETWORK_ERROR p) = map_option (\<lambda>log. log @ [StartLoad]) (hls p)
   \<and> onHlsError True MEDIA_ERROR p = hls_invoke RecoverMediaError p
   \<and> player_state (onHlsError True MEDIA_ERROR p) = player_state p
   \<and> hls (onHlsError True MEDIA_ERROR p) = map_option (\<lambda>log. log @ [RecoverMediaError]) (hls p)
   \<and> hls (onHlsError True (OTHER_TYPE k) p) = map_option (\<lambda>log. log @ [Destroy]) (hls p)
   \<and> error (onHlsError True (OTHER_TYPE k) p) = Some ''Failed to load video''
   \<and> isLoading (onHlsError True (OTHER_TYPE k) p) = False
   \<and> onHlsError True (OTHER_TYPE k) p
       = (hls_invoke Destroy p)\<lparr>error := Some ''Failed to load video'', isLoading := False\<rparr>"
  by (simp add: onHlsError_def player_state_hls_invoke) (simp add: hls_invoke_def)

section \<open>Volume and mute\<close>

lemma clamp_min_max: "clamp x 0 1 = min 1 (max 0 x)"
  by (simp add: clamp_def min_def max_def)

lemma clamp_range: "0 \<le> clamp x 0 1 \<and> clamp x 0 1 \<le> 1"
  by (simp add: clamp_def)

lemma setVolumeLevel_Fin:
  assumes "video p = Some v"
  shows "setVolumeLevel (Fin x) p =
           Inr (p\<lparr>volume := clamp x 0 1, isMuted := (clamp x 0 1 = 0),
                  video := Some (v\<lparr>el_volume := clamp x 0 1, el_muted := (clamp x 0 1 = 0)\<rparr>)\<rparr>)"
proof -
  have c: "js_min (Fin 1) (js_max (Fin 0) (Fin x)) = Fin (clamp x 0 1)"
    by (simp add: clamp_min_max)
  show ?thesis
    unfolding setVolumeLevel_def c using assms clamp_range [of x] by (simp add: Let_def)
qed

text \<open>
  C2. With the video element mounted, \<open>setVolume(v)\<close> on a real \<open>v\<close> returns without
  an error, stores \<open>clamp(v, 0, 1)\<close> as the volume (in the state and on the element),
  and leaves \<open>isMuted\<close> true exactly when the stored volume is 0: \<open>v = 0\<close> mutes and
  any \<open>v > 0\<close> unmutes. No other field of the player state changes.
\<close>

theorem setVolumeLevel_clamps:
  assumes "video p = Some v"
  shows "\<exists>p'. setVolumeLevel (Fin x) p = Inr p'
           \<and> volume p' = clamp x 0 1
           \<and> (isMuted p' \<longleftrightarrow> volume p' = 0)
           \<and> (x = 0 \<longrightarrow> isMuted p')
           \<and> (0 < x \<longrightarrow> \<not> isMuted p')
           \<and> video p' = Some (v\<lparr>el_volume := clamp x 0 1, el_muted := (clamp x 0 1 = 0)\<rparr>)
           \<and> isPlaying p' = isPlaying p \<and> isLoading p' = isLoading p \<and> error p' = error p
           \<and> currentTime p' = currentTime p \<and> duration p' = duration p"
proof -
  let ?p' = "p\<lparr>volume := clamp x 0 1, isMuted := (clamp x 0 1 = 0),
               video := Some (v\<lparr>el_volume := clamp x 0 1, el_muted := (clamp x 0 1 = 0)\<rparr>)\<rparr>"
  have r: "setVolumeLevel (Fin x) p = Inr ?p'"
    using assms by (rule setVolumeLevel_Fin)
  have z: "x = 0 \<longrightarrow> clamp x 0 1 = 0" and pos: "0 < x \<longrightarrow> clamp x 0 1 \<noteq> 0"
    by (simp_all add: clamp_def)
  show ?thesis
    using r z pos by simp
qed

theorem setVolumeLevel_clamps_witness:
  "video watching \<noteq> None
   \<and> (\<exists>p'. setVolumeLevel (Fin 1.7) watching = Inr p' \<and> volume p' = 1 \<and> \<not> isMuted p')
   \<and> (\<exists>p'. setVolumeLevel (Fin 0) watching = Inr p' \<and> volume p' = 0 \<and> isMuted p')"
proof -
  obtain v where v: "video watching = Some v"
    by (simp add: watching_def)
  have a: "clamp 1.7 0 1 = 1" and b: "clamp 0 0 1 = 0"
    by (simp_all add: clamp_def)
  show ?thesis
    using v setVolumeLevel_clamps [OF v, of "1.7"] setVolumeLevel_clamps [OF v, of 0]
    by (auto simp: a b)
qed

lemma toggleMute_audible:
  assumes "video p = Some v" and "el_volume v \<noteq> 0"
  shows "toggleMute p = p\<lparr>isMuted := \<not> el_muted v, video := Some (v\<lparr>el_muted := \<not> el_muted v\<rparr>)\<rparr>"
  using assms by (simp add: toggleMute_def Let_def)

lemma toggleMute_twice_audible:
  assumes "video p = Some v" and "el_volume v \<noteq> 0"
  shows "toggleMute (toggleMute p) = p\<lparr>isMuted := el_muted v\<rparr>"
proof -
  let ?q = "p\<lparr>isMuted := \<not> el_muted v, video := Some (v\<lparr>el_muted := \<not> el_muted v\<rparr>)\<rparr>"
  have q: "toggleMute p = ?q"
    using assms by (rule toggleMute_audible)
  have "toggleMute ?q = p\<lparr>isMuted := el_muted v\<rparr>"
    using assms by (simp add: toggleMute_def Let_def)
  with q show ?thesis by simp
qed

lemma toggleMute_twice_silent:
  assumes "video p = Some v" and "el_volume v = 0"
  shows "toggleMute (toggleMute p)
           = p\<lparr>isMuted := el_muted v, volume := 0.5, video := Some (v\<lparr>el_volume := 0.5\<rparr>)\<rparr>"
proof (cases "el_muted v")
  case True
  have "toggleMute p
          = p\<lparr>isMuted := False, volume := 0.5,
               video := Some (v\<lparr>el_muted := False, el_volume := 0.5\<rparr>)\<rparr>"
    using assms True by (simp add: toggleMute_def Let_def)
  then show ?thesis
    using True by (simp add: toggleMute_def Let_def)
next
  case False
  have "toggleMute p = p\<lparr>isMuted := True, video := Some (v\<lparr>el_muted := True\<rparr>)\<rparr>"
    using assms False by (simp add: toggleMute_def Let_def)
  then show ?thesis
    using assms False by (simp add: toggleMute_def Let_def)
qed

lemma mirrors_initial: "mirrors initial_player" "mirrors (render_video src initial_player)"
  by (simp_all add: mirrors_def initial_player_def render_video_def new_video_def
      split: option.splits)

lemma mirrors_volume_handlers:
  "mirrors (handleLoadedMetadata p)" "mirrors (handleVolumeChangeEvent p)"
  "setVolumeLevel x p = Inr p' \<Longrightarrow> mirrors p'"
  "mirrors p \<Longrightarrow> mirrors (toggleMute p)"
  by (auto simp: mirrors_def handleLoadedMetadata_def handleVolumeChangeEvent_def
      setVolumeLevel_def toggleMute_def Let_def split: option.splits jsnum.splits if_splits)

lemma mirrors_other_handlers:
  assumes "mirrors p"
  shows "mirrors (togglePlayPause p)" "mirrors (stopPlayback p)" "mirrors (onHlsError f t p)"
    "mirrors (onManifestParsed p)" "mirrors (onPlayRejected p)" "mirrors (handlePlay p)"
    "mirrors (handlePause p)" "mirrors (handleWaiting p)" "mirrors (handleCanPlay p)"
    "mirrors (handleTimeUpdate p)" "mirrors (handleError p)" "mirrors (src_cleanup p)"
  using assms
  by (auto simp: mirrors_def togglePlayPause_def stopPlayback_def onHlsError_def hls_invoke_def
      video_invoke_def onManifestParsed_def onPlayRejected_def handlePlay_def handlePause_def
      handleWaiting_def handleCanPlay_def handleTimeUpdate_def handleError_def src_cleanup_def
      split: option.splits hls_error_type.splits)

text \<open>
  C8. With the video element mounted (a channel is selected), two calls of
  \<open>toggleMute()\<close> restore the audible configuration. If the element's volume was not 0,
  the element is as before, the stored volume is as before and \<open>isMuted\<close> is the
  element's muted flag as before; where \<open>isMuted\<close> mirrored that flag, the whole state
  is as before. If the element's volume was 0, the call that unmutes sets the volume to
  0.5 (the first call when the element was muted, the second otherwise), so after both
  calls the volume is 0.5 and the muted flag is as before. In a state that mirrors the
  element, as every handler leaves it: a stored volume other than 0 gives back the same
  state, and a stored volume of 0 gives 0.5.
\<close>

theorem toggleMute_twice:
  assumes "video p = Some v"
  shows "(el_volume v \<noteq> 0 \<longrightarrow>
            video (toggleMute (toggleMute p)) = Some v
          \<and> volume (toggleMute (toggleMute p)) = volume p
          \<and> isMuted (toggleMute (toggleMute p)) = el_muted v
          \<and> (isMuted p = el_muted v \<longrightarrow> toggleMute (toggleMute p) = p))
       \<and> (el_volume v = 0 \<longrightarrow>
            volume (toggleMute (toggleMute p)) = 0.5
          \<and> video (toggleMute (toggleMute p)) = Some (v\<lparr>el_volume := 0.5\<rparr>)
          \<and> isMuted (toggleMute (toggleMute p)) = el_muted v
          \<and> (el_muted v \<longrightarrow> volume (toggleMute p) = 0.5 \<and> \<not> isMuted (toggleMute p))
          \<and> (\<not> el_muted v \<longrightarrow> isMuted (toggleMute p) \<and> volume (toggleMute p) = volume p))
       \<and> (mirrors p \<and> volume p \<noteq> 0 \<longrightarrow> toggleMute (toggleMute p) = p)
       \<and> (mirrors p \<and> volume p = 0 \<longrightarrow> volume (toggleMute (toggleMute p)) = 0.5)"
proof (cases "el_volume v = 0")
  case True
  have two: "toggleMute (toggleMute p)
               = p\<lparr>isMuted := el_muted v, volume := 0.5, video := Some (v\<lparr>el_volume := 0.5\<rparr>)\<rparr>"
    using assms True by (rule toggleMute_twice_silent)
  have one: "(el_muted v \<longrightarrow> volume (toggleMute p) = 0.5 \<and> \<not> isMuted (toggleMute p))
           \<and> (\<not> el_muted v \<longrightarrow> isMuted (toggleMute p) \<and> volume (toggleMute p) = volume p)"
    using assms True by (simp add: toggleMute_def Let_def)
  have m: "mirrors p \<longrightarrow> volume p = 0"
    using assms True by (simp add: mirrors_def)
  show ?thesis
    using True one m by (auto simp: two)
next
  case False
  have two: "toggleMute (toggleMute p) = p\<lparr>isMuted := el_muted v\<rparr>"
    using assms False by (rule toggleMute_twice_audible)
  have same: "isMuted p = el_muted v \<longrightarrow> p\<lparr>isMuted := el_muted v\<rparr> = p"
    by auto
  have m: "mirrors p \<longrightarrow> volume p \<noteq> 0 \<and> isMuted p = el_muted v"
    using assms False by (simp add: mirrors_def)
  show ?thesis
    using False assms same m by (auto simp: two)
qed

theorem toggleMute_twice_witness:
  "video watching \<noteq> None
   \<and> toggleMute (toggleMute watching) = watching
   \<and> isMuted (toggleMute watching)
   \<and> volume (toggleMute (toggleMute
        (watching\<lparr>volume := 0, isMuted := True,
                   video := Some (new_video\<lparr>el_volume := 0, el_muted := True\<rparr>)\<rparr>))) = 0.5"
proof -
  let ?v = "\<lparr>el_volume = 0.3, el_muted = False, el_currentTime = 42,
              el_duration = Fin 100, el_calls = [Play]\<rparr>"
  let ?w0 = "watching\<lparr>volume := 0, isMuted := True,
                       video := Some (new_video\<lparr>el_volume := 0, el_muted := True\<rparr>)\<rparr>"
  have v: "video watching = Some ?v"
    by (simp add: watching_def)
  have v0: "video ?w0 = Some (new_video\<lparr>el_volume := 0, el_muted := True\<rparr>)"
    by simp
  have m: "isMuted (toggleMute watching)"
    by (simp add: toggleMute_def watching_def Let_def)
  show ?thesis
    using v m toggleMute_twice [OF v] toggleMute_twice [OF v0]
    by (simp add: watching_def new_video_def)
qed

section \<open>Switching the source\<close>

lemma src_cleanup_fields:
  "isPlaying (src_cleanup p) = isPlaying p \<and> isLoading (src_cleanup p) = isLoading p
   \<and> error (src_cleanup p) = error p \<and> currentTime (src_cleanup p) = currentTime p
   \<and> duration (src_cleanup p) = duration p \<and> volume (src_cleanup p) = volume p
   \<and> isMuted (src_cleanup p) = isMuted p"
  by (simp add: src_cleanup_def hls_invoke_def)

lemma src_cleanup_video:
  "video p = Some v \<Longrightarrow>
   video (src_cleanup p)
     = Some (video_invoke Load (video_invoke RemoveSrc (video_invoke Pause v)))"
  by (simp add: src_cleanup_def hls_invoke_def)

lemma render_video_mounted:
  "video p = Some v \<Longrightarrow> s \<noteq> [] \<Longrightarrow> render_video (Some s) p = p"
  by (simp add: render_video_def)

lemma src_effect_fields:
  assumes "video p = Some v" and "s \<noteq> []"
  shows "isLoading (src_effect b (Some s) p) = (hls_supported b \<or> native_hls b)"
    and "error (src_effect b (Some s) p)
           = (if hls_supported b \<or> native_hls b then None
              else Some ''HLS is not supported in this browser'')"
    and "volume (src_effect b (Some s) p) = volume p"
    and "isMuted (src_effect b (Some s) p) = isMuted p"
    and "currentTime (src_effect b (Some s) p) = currentTime p"
    and "duration (src_effect b (Some s) p) = duration p"
    and "isPlaying (src_effect b (Some s) p) = isPlaying p"
    and "map_option el_volume (video (src_effect b (Some s) p)) = Some (el_volume v)"
    and "map_option el_muted (video (src_effect b (Some s) p)) = Some (el_muted v)"
  using assms by (simp_all add: src_effect_def setupVideo_def video_invoke_def)

text \<open>
  C3 does not hold as stated: the effect that runs when \<open>src\<close> changes never
  writes \<open>currentTime\<close>. A Player 42 seconds into source \<open>a\<close> still shows 42 seconds
  right after the switch to source \<open>b\<close>.
\<close>

theorem onSrcChange_keeps_currentTime_counterexample:
  "currentTime (onSrcChange hlsjs_browser (Some ''b'') watching) \<noteq> 0"
  by (simp add: onSrcChange_def src_effect_def setupVideo_def render_video_def src_cleanup_def
      hls_invoke_def video_invoke_def watching_def hlsjs_browser_def)

text \<open>
  C3, amended. For every prior player state with the video element mounted and every
  non-empty new source url, the switch sets \<open>isLoading\<close> to true and \<open>error\<close> to none when
  the browser can play HLS (through hls.js or natively), and otherwise sets \<open>error\<close> to
  "HLS is not supported in this browser" with \<open>isLoading\<close> false. It leaves \<open>volume\<close> and
  \<open>isMuted\<close> (in the state and on the element), \<open>currentTime\<close>, \<open>duration\<close> and
  \<open>isPlaying\<close> unchanged: \<open>currentTime\<close> changes only when the element next reports a
  \<open>timeupdate\<close>.
\<close>

theorem onSrcChange_resets:
  assumes "video p = Some v" and "s \<noteq> []"
  shows "isLoading (onSrcChange b (Some s) p) = (hls_supported b \<or> native_hls b)
       \<and> error (onSrcChange b (Some s) p)
           = (if hls_supported b \<or> native_hls b then None
              else Some ''HLS is not supported in this browser'')
       \<and> volume (onSrcChange b (Some s) p) = volume p
       \<and> isMuted (onSrcChange b (Some s) p) = isMuted p
       \<and> map_option el_volume (video (onSrcChange b (Some s) p)) = Some (el_volume v)
       \<and> map_option el_muted (video (onSrcChange b (Some s) p)) = Some (el_muted v)
       \<and> currentTime (onSrcChange b (Some s) p) = currentTime p
       \<and> duration (onSrcChange b (Some s) p) = duration p
       \<and> isPlaying (onSrcChange b (Some s) p) = isPlaying p"
proof (cases "has_cleanup p")
  case False
  have "onSrcChange b (Some s) p = src_effect b (Some s) p"
    using False assms by (simp add: onSrcChange_def render_video_mounted)
  then show ?thesis
    using src_effect_fields [OF assms, of b] by simp
next
  case True
  let ?v = "video_invoke Load (video_invoke RemoveSrc (video_invoke Pause v))"
  have cv: "video (src_cleanup p) = Some ?v"
    using assms(1) by (rule src_cleanup_video)
  have "onSrcChange b (Some s) p = src_effect b (Some s) (src_cleanup p)"
    using True cv assms(2) by (simp add: onSrcChange_def render_video_mounted)
  moreover have "el_volume ?v = el_volume v" and "el_muted ?v = el_muted v"
    by (simp_all add: video_invoke_def)
  ultimately show ?thesis
    using src_effect_fields [OF cv assms(2), of b] src_cleanup_fields [of p] by simp
qed

theorem onSrcChange_resets_witness:
  "video (watching\<lparr>error := Some ''Failed to load video''\<rparr>) \<noteq> None
   \<and> error (onSrcChange hlsjs_browser (Some ''b'')
              (watching\<lparr>error := Some ''Failed to load video''\<rparr>)) = None
   \<and> isLoading (onSrcChange hlsjs_browser (Some ''b'')
              (watching\<lparr>error := Some ''Failed to load video''\<rparr>))
   \<and> volume (onSrcChange hlsjs_browser (Some ''b'')
              (watching\<lparr>error := Some ''Failed to load video''\<rparr>)) = 0.3"
proof -
  let ?w = "watching\<lparr>error := Some ''Failed to load video''\<rparr>"
  obtain v where v: "video ?w = Some v"
    by (simp add: watching_def)
  have s: "''b'' \<noteq> []"
    by simp
  have vol: "volume ?w = 0.3"
    by (simp add: watching_def)
  show ?thesis
    using v vol onSrcChange_resets [OF v s, of hlsjs_browser]
    by (simp add: hlsjs_browser_def)
qed

section \<open>Channel navigation\<close>

lemma findIndex_bounds: "- 1 \<le> findIndex P xs \<and> findIndex P xs < int (length xs)"
  by (induction xs) (auto simp: Let_def)

lemma findIndex_absent: "(findIndex P xs < 0) = (\<forall>x \<in> set xs. \<not> P x)"
proof (induction xs)
  case Nil
  show ?case by simp
next
  case (Cons x xs)
  have "- 1 \<le> findIndex P xs"
    using findIndex_bounds [of P xs] by simp
  with Cons show ?case
    by (auto simp: Let_def)
qed

lemma findIndex_first:
  "i < length xs \<Longrightarrow> P (xs ! i) \<Longrightarrow> (\<forall>j<i. \<not> P (xs ! j)) \<Longrightarrow> findIndex P xs = int i"
proof (induction xs arbitrary: i)
  case Nil
  then show ?case by simp
next
  case (Cons x xs)
  show ?case
  proof (cases i)
    case 0
    with Cons.prems show ?thesis by simp
  next
    case (Suc k)
    have nx: "\<not> P x"
      using Cons.prems(3) Suc by (metis nth_Cons_0 zero_less_Suc)
    have "\<forall>j<k. \<not> P (xs ! j)"
      using Cons.prems(3) Suc by (metis Suc_less_eq nth_Cons_Suc)
    moreover have "k < length xs" and "P (xs ! k)"
      using Cons.prems(1,2) Suc by simp_all
    ultimately have "findIndex P xs = int k"
      using Cons.IH by blast
    with nx Suc show ?thesis
      by (simp add: Let_def)
  qed
qed

lemma str_includes_empty: "str_includes s [] = True"
  by (cases s) simp_all

lemma filteredChannels_unfiltered: "filteredChannels chs [] ''All'' = chs"
  by (simp add: filteredChannels_def toLowerCase_def str_includes_empty)

lemma filteredChannels_subset: "set (filteredChannels chs t c) \<subseteq> set chs"
  by (simp add: filteredChannels_def)


lemma findIndex_found:
  "0 \<le> findIndex P xs \<Longrightarrow>
   P (xs ! nat (findIndex P xs)) \<and> list_all (\<lambda>x. \<not> P x) (take (nat (findIndex P xs)) xs)"
proof (induction xs)
  case Nil
  then show ?case by simp
next
  case (Cons x xs)
  show ?case
  proof (cases "P x")
    case True
    then show ?thesis by simp
  next
    case False
    have r: "0 \<le> findIndex P xs"
      using Cons.prems False by (simp add: Let_def split: if_splits)
    then have f: "findIndex P (x # xs) = findIndex P xs + 1"
      using False by (simp add: Let_def)
    have n: "nat (findIndex P xs + 1) = Suc (nat (findIndex P xs))"
      using r by simp
    show ?thesis
      unfolding f n using Cons.IH [OF r] False by simp
  qed
qed

lemma findIndex_first':
  assumes "i < length xs" and "P (xs ! i)" and "list_all (\<lambda>x. \<not> P x) (take i xs)"
  shows "findIndex P xs = int i"
proof -
  have "\<forall>j<i. \<not> P (xs ! j)"
    using assms(1,3) by (simp add: list_all_length)
  then show ?thesis
    using assms(1,2) by (simp add: findIndex_first)
qed

lemma index_anchored:
  assumes "anchored_at h i"
  shows "getCurrentChannelIndex (filtered_view h) (selectedChannel h) = int i"
proof -
  obtain s where s: "selectedChannel h = Some s"
    using assms by (auto simp: anchored_at_def split: option.splits)
  have "findIndex (\<lambda>ch. url ch = url s) (filtered_view h) = int i"
    using assms s by (intro findIndex_first') (simp_all add: anchored_at_def)
  then show ?thesis
    by (simp add: getCurrentChannelIndex_def s)
qed

lemma index_absent:
  assumes "anchor_absent h"
  shows "getCurrentChannelIndex (filtered_view h) (selectedChannel h) = - 1"
proof -
  let ?P = "\<lambda>ch. case selectedChannel h of None \<Rightarrow> False | Some s \<Rightarrow> url ch = url s"
  have "\<forall>x \<in> set (filtered_view h). \<not> ?P x"
    using assms by (auto simp: anchor_absent_def list_all_iff split: option.splits)
  then have "findIndex ?P (filtered_view h) < 0"
    by (simp add: findIndex_absent)
  then show ?thesis
    using findIndex_bounds [of ?P "filtered_view h"] by (simp add: getCurrentChannelIndex_def)
qed

lemma anchor_cases: "anchor_absent h \<or> (\<exists>i. anchored_at h i)"
proof (cases "anchor_absent h")
  case True
  then show ?thesis by simp
next
  case False
  then obtain s where s: "selectedChannel h = Some s"
    by (auto simp: anchor_absent_def split: option.splits)
  let ?P = "\<lambda>ch. url ch = url s"
  let ?k = "findIndex ?P (filtered_view h)"
  have "\<not> (\<forall>x \<in> set (filtered_view h). \<not> ?P x)"
    using False s by (simp add: anchor_absent_def list_all_iff)
  then have "\<not> ?k < 0"
    using findIndex_absent [of ?P "filtered_view h"] by blast
  then have k: "0 \<le> ?k"
    by simp
  have "nat ?k < length (filtered_view h)"
    using k findIndex_bounds [of ?P "filtered_view h"] by simp
  then have "anchored_at h (nat ?k)"
    using findIndex_found [OF k] s by (simp add: anchored_at_def)
  then show ?thesis by blast
qed

text \<open>
  C4. \<open>next()\<close> and \<open>prev()\<close> work on the filtered view, anchored by url equality. With
  the anchor at index \<open>i\<close>, \<open>next()\<close> selects the view's element \<open>i + 1\<close> exactly when
  \<open>i\<close> is not the last index and \<open>prev()\<close> the element \<open>i - 1\<close> exactly when \<open>i > 0\<close>;
  at a boundary, and when the anchor is absent from the view, the state is unchanged.
  \<open>hasNext()\<close> and \<open>hasPrev()\<close> say the same. For the list \<open>[a, b, c]\<close>, unfiltered, with
  \<open>b\<close> selected, both are true, \<open>next()\<close> selects \<open>c\<close>, and then \<open>hasNext()\<close> is false.
\<close>

theorem next_prev_navigation:
  "(anchored_at h i \<longrightarrow>
       next_channel h
         = (if i + 1 < length (filtered_view h)
            then h\<lparr>selectedChannel := Some (filtered_view h ! (i + 1))\<rparr> else h)
     \<and> prev_channel h
         = (if 0 < i then h\<lparr>selectedChannel := Some (filtered_view h ! (i - 1))\<rparr> else h)
     \<and> has_next h = (i + 1 < length (filtered_view h))
     \<and> has_prev h = (0 < i))
   \<and> (anchor_absent h \<longrightarrow>
         next_channel h = h \<and> prev_channel h = h \<and> \<not> has_next h \<and> \<not> has_prev h)
   \<and> has_next abc_host \<and> has_prev abc_host
   \<and> selectedChannel (next_channel abc_host) = Some ch_c
   \<and> \<not> has_next (next_channel abc_host)"
proof (intro conjI impI)
  assume a: "anchored_at h i"
  have idx: "getCurrentChannelIndex (filtered_view h) (selectedChannel h) = int i"
    using a by (rule index_anchored)
  have len: "i < length (filtered_view h)"
    using a by (auto simp: anchored_at_def split: option.splits)
  have n1: "nat (int i + 1) = i + 1" and n2: "nat (int i - 1) = i - 1"
    by simp_all
  show "next_channel h
         = (if i + 1 < length (filtered_view h)
            then h\<lparr>selectedChannel := Some (filtered_view h ! (i + 1))\<rparr> else h)"
    using len by (auto simp: next_channel_def handleNextChannel_def idx Let_def n1)
  show "prev_channel h
         = (if 0 < i then h\<lparr>selectedChannel := Some (filtered_view h ! (i - 1))\<rparr> else h)"
    using len by (auto simp: prev_channel_def handlePrevChannel_def idx Let_def n2)
  show "has_next h = (i + 1 < length (filtered_view h))"
    using len by (auto simp: has_next_def hasNextChannel_def idx Let_def)
  show "has_prev h = (0 < i)"
    by (simp add: has_prev_def hasPrevChannel_def idx Let_def)
next
  assume a: "anchor_absent h"
  have idx: "getCurrentChannelIndex (filtered_view h) (selectedChannel h) = - 1"
    using a by (rule index_absent)
  show "next_channel h = h"
    by (simp add: next_channel_def handleNextChannel_def idx Let_def)
  show "prev_channel h = h"
    by (simp add: prev_channel_def handlePrevChannel_def idx Let_def)
  show "\<not> has_next h"
    by (simp add: has_next_def hasNextChannel_def idx Let_def)
  show "\<not> has_prev h"
    by (simp add: has_prev_def hasPrevChannel_def idx Let_def)
next
  have fv: "filtered_view abc_host = [ch_a, ch_b, ch_c]"
    by (simp add: filtered_view_def abc_host_def initial_host_def filteredChannels_unfiltered)
  have sel: "selectedChannel abc_host = Some ch_b"
    by (simp add: abc_host_def)
  have idx: "getCurrentChannelIndex [ch_a, ch_b, ch_c] (Some ch_b) = 1"
    by (simp add: getCurrentChannelIndex_def ch_a_def ch_b_def ch_c_def Let_def)
  have nxt: "next_channel abc_host = abc_host\<lparr>selectedChannel := Some ch_c\<rparr>"
    by (simp add: next_channel_def handleNextChannel_def fv sel idx Let_def)
  have fv': "filtered_view (abc_host\<lparr>selectedChannel := Some ch_c\<rparr>) = [ch_a, ch_b, ch_c]"
    using fv by (simp add: filtered_view_def)
  have idx': "getCurrentChannelIndex [ch_a, ch_b, ch_c] (Some ch_c) = 2"
    by (simp add: getCurrentChannelIndex_def ch_a_def ch_b_def ch_c_def Let_def)
  show "has_next abc_host"
    by (simp add: has_next_def hasNextChannel_def fv sel idx Let_def)
  show "has_prev abc_host"
    by (simp add: has_prev_def hasPrevChannel_def fv sel idx Let_def)
  show "selectedChannel (next_channel abc_host) = Some ch_c"
    by (simp add: nxt)
  show "\<not> has_next (next_channel abc_host)"
    by (simp add: nxt has_next_def hasNextChannel_def fv' idx' Let_def)
qed

theorem next_prev_navigation_witness:
  "anchored_at abc_host 1
   \<and> next_channel abc_host = abc_host\<lparr>selectedChannel := Some ch_c\<rparr>
   \<and> prev_channel abc_host = abc_host\<lparr>selectedChannel := Some ch_a\<rparr>
   \<and> anchor_absent (abc_host\<lparr>deferredCategory := ''Sport''\<rparr>)
   \<and> next_channel (abc_host\<lparr>deferredCategory := ''Sport''\<rparr>)
       = abc_host\<lparr>deferredCategory := ''Sport''\<rparr>"
proof -
  have fv: "filtered_view abc_host = [ch_a, ch_b, ch_c]"
    by (simp add: filtered_view_def abc_host_def initial_host_def filteredChannels_unfiltered)
  have sel: "selectedChannel abc_host = Some ch_b"
    by (simp add: abc_host_def)
  have a: "anchored_at abc_host 1"
    by (simp add: anchored_at_def fv sel ch_a_def ch_b_def)
  have fs: "filtered_view (abc_host\<lparr>deferredCategory := ''Sport''\<rparr>) = [ch_c]"
    by (simp add: filtered_view_def abc_host_def initial_host_def filteredChannels_def
        toLowerCase_def str_includes_empty ch_a_def ch_b_def ch_c_def)
  have b: "anchor_absent (abc_host\<lparr>deferredCategory := ''Sport''\<rparr>)"
    by (simp add: anchor_absent_def fs sel ch_b_def ch_c_def)
  show ?thesis
    using a b next_prev_navigation [of abc_host 1]
      next_prev_navigation [of "abc_host\<lparr>deferredCategory := ''Sport''\<rparr>" 0]
    by (simp add: fv)
qed

section \<open>Inbound commands\<close>

lemma handleRemoteCommand_unknown:
  "command \<notin> set known_commands \<Longrightarrow> handleRemoteCommand fc sel command payload h = Inr h"
  by (simp add: handleRemoteCommand_def known_commands_def)

lemma handleRemoteCommand_set_volume:
  "handleRemoteCommand fc sel (String ''set-volume'') payload h
     = (case get_prop ''value'' payload of Number v \<Rightarrow> remoteVolumeChange v h | _ \<Rightarrow> Inr h)"
  by (simp add: handleRemoteCommand_def)

lemma setVolumeLevel_infinite:
  assumes "video p = Some el"
  shows "setVolumeLevel PosInf p
           = Inr (p\<lparr>volume := 1, isMuted := False,
                    video := Some (el\<lparr>el_volume := 1, el_muted := False\<rparr>)\<rparr>)"
    and "setVolumeLevel NegInf p
           = Inr (p\<lparr>volume := 0, isMuted := True,
                    video := Some (el\<lparr>el_volume := 0, el_muted := True\<rparr>)\<rparr>)"
  using assms by (simp_all add: setVolumeLevel_def Let_def)

lemma onData_other:
  "get_prop ''type'' message \<noteq> String ''command''
   \<Longrightarrow> get_prop ''type'' message \<noteq> String ''remote-ready''
   \<Longrightarrow> onData fc sel ps c message h = Inr h"
  by (simp add: onData_def)

text \<open>
  C5 does not hold as stated: the guard is \<open>typeof payload?.value === "number"\<close>, and
  Infinity is a number. A \<open>set-volume\<close> with the value Infinity is applied: the host's
  volume goes from 0.3 to 1.
\<close>

theorem set_volume_infinity_counterexample:
  "handleRemoteCommand (filtered_view tv_host) (selectedChannel tv_host)
       (String ''set-volume'') (Object [(''value'', Number PosInf)]) tv_host
     = Inr (tv_host\<lparr>playerRef := Some (watching\<lparr>volume := 1,
              video := Some \<lparr>el_volume = 1, el_muted = False, el_currentTime = 42,
                             el_duration = Fin 100, el_calls = [Play]\<rparr>\<rparr>)\<rparr>)
   \<and> volume watching = 0.3"
  by (simp add: handleRemoteCommand_def remoteVolumeChange_def with_player_def tv_host_def
      setVolumeLevel_def watching_def Let_def)

text \<open>
  C5, amended. A message whose command is not one of the eight is dropped: the host
  state is unchanged and no error is raised. So is a \<open>set-volume\<close> whose payload value
  is missing or is not of type number. A \<open>set-volume\<close> whose payload value is a number
  other than NaN is handed to the Player's \<open>setVolume\<close>, finite or not; with a Player
  mounted it is stored clamped to \<open>[0, 1]\<close> (Infinity as 1, -Infinity as 0).
\<close>

theorem handleRemoteCommand_tolerant:
  "(command \<notin> set known_commands \<longrightarrow> handleRemoteCommand fc sel command payload h = Inr h)
   \<and> (\<not> typeof_number (get_prop ''value'' payload) \<longrightarrow>
        handleRemoteCommand fc sel (String ''set-volume'') payload h = Inr h)
   \<and> (get_prop ''value'' payload = Number v \<and> v \<noteq> NaN \<longrightarrow>
        handleRemoteCommand fc sel (String ''set-volume'') payload h = remoteVolumeChange v h)
   \<and> (get_prop ''value'' payload = Number v \<and> v \<noteq> NaN \<and> playerRef h = Some p
        \<and> video p = Some el \<longrightarrow>
        (\<exists>p'. handleRemoteCommand fc sel (String ''set-volume'') payload h
                 = Inr (h\<lparr>playerRef := Some p'\<rparr>)
             \<and> volume p' = (case v of Fin x \<Rightarrow> clamp x 0 1 | PosInf \<Rightarrow> 1 | _ \<Rightarrow> 0)
             \<and> (isMuted p' \<longleftrightarrow> volume p' = 0)))"
proof (intro conjI impI)
  assume "command \<notin> set known_commands"
  then show "handleRemoteCommand fc sel command payload h = Inr h"
    by (rule handleRemoteCommand_unknown)
next
  assume "\<not> typeof_number (get_prop ''value'' payload)"
  then show "handleRemoteCommand fc sel (String ''set-volume'') payload h = Inr h"
    by (cases "get_prop ''value'' payload") (simp_all add: handleRemoteCommand_set_volume)
next
  assume "get_prop ''value'' payload = Number v \<and> v \<noteq> NaN"
  then show "handleRemoteCommand fc sel (String ''set-volume'') payload h = remoteVolumeChange v h"
    by (simp add: handleRemoteCommand_set_volume)
next
  assume a: "get_prop ''value'' payload = Number v \<and> v \<noteq> NaN \<and> playerRef h = Some p
             \<and> video p = Some el"
  then have el: "video p = Some el" and pr: "playerRef h = Some p" and v: "v \<noteq> NaN"
    by simp_all
  have call: "handleRemoteCommand fc sel (String ''set-volume'') payload h
                = with_player (setVolumeLevel v) h"
    using a by (simp add: handleRemoteCommand_set_volume remoteVolumeChange_def)
  show "\<exists>p'. handleRemoteCommand fc sel (String ''set-volume'') payload h
                 = Inr (h\<lparr>playerRef := Some p'\<rparr>)
             \<and> volume p' = (case v of Fin x \<Rightarrow> clamp x 0 1 | PosInf \<Rightarrow> 1 | _ \<Rightarrow> 0)
             \<and> (isMuted p' \<longleftrightarrow> volume p' = 0)"
  proof (cases v)
    case NaN
    with v show ?thesis by simp
  next
    case NegInf
    show ?thesis
      unfolding call NegInf using pr setVolumeLevel_infinite(2) [OF el]
      by (intro exI [of _ "p\<lparr>volume := 0, isMuted := True,
                              video := Some (el\<lparr>el_volume := 0, el_muted := True\<rparr>)\<rparr>"])
        (simp add: with_player_def)
  next
    case (Fin x)
    show ?thesis
      unfolding call Fin using pr setVolumeLevel_Fin [OF el, of x]
      by (intro exI [of _ "p\<lparr>volume := clamp x 0 1, isMuted := (clamp x 0 1 = 0),
                              video := Some (el\<lparr>el_volume := clamp x 0 1,
                                                 el_muted := (clamp x 0 1 = 0)\<rparr>)\<rparr>"])
        (simp add: with_player_def)
  next
    case PosInf
    show ?thesis
      unfolding call PosInf using pr setVolumeLevel_infinite(1) [OF el]
      by (intro exI [of _ "p\<lparr>volume := 1, isMuted := False,
                              video := Some (el\<lparr>el_volume := 1, el_muted := False\<rparr>)\<rparr>"])
        (simp add: with_player_def)
  qed
qed

theorem handleRemoteCommand_tolerant_witness:
  "String ''reboot'' \<notin> set known_commands
   \<and> handleRemoteCommand [] None (String ''reboot'') Undefined tv_host = Inr tv_host
   \<and> \<not> typeof_number (get_prop ''value'' (Object [(''value'', String ''0.5'')]))
   \<and> handleRemoteCommand [] None (String ''set-volume'')
        (Object [(''value'', String ''0.5'')]) tv_host = Inr tv_host
   \<and> handleRemoteCommand [] None (String ''set-volume'') Undefined tv_host = Inr tv_host
   \<and> (\<exists>p'. handleRemoteCommand [] None (String ''set-volume'')
               (Object [(''value'', Number (Fin 0.5))]) tv_host
               = Inr (tv_host\<lparr>playerRef := Some p'\<rparr>)
           \<and> volume p' = 0.5)"
proof -
  have k: "String ''reboot'' \<notin> set known_commands"
    by (simp add: known_commands_def)
  have t: "\<not> typeof_number (get_prop ''value'' (Object [(''value'', String ''0.5'')]))"
    and u: "\<not> typeof_number (get_prop ''value'' Undefined)"
    and n: "get_prop ''value'' (Object [(''value'', Number (Fin 0.5))]) = Number (Fin 0.5)"
    by simp_all
  obtain el where el: "video watching = Some el"
    by (simp add: watching_def)
  have pr: "playerRef tv_host = Some watching"
    by (simp add: tv_host_def)
  have c: "clamp 0.5 0 1 = 0.5"
    by (simp add: clamp_def)
  have nn: "Fin 0.5 \<noteq> NaN"
    by simp
  have unknown: "handleRemoteCommand [] None (String ''reboot'') Undefined tv_host = Inr tv_host"
    and missing: "handleRemoteCommand [] None (String ''set-volume'') Undefined tv_host
                    = Inr tv_host"
    using k u
      handleRemoteCommand_tolerant
        [of "String ''reboot''" "[]" None Undefined tv_host NaN watching el]
    by blast+
  have malformed: "handleRemoteCommand [] None (String ''set-volume'')
                     (Object [(''value'', String ''0.5'')]) tv_host = Inr tv_host"
    using t
      handleRemoteCommand_tolerant
        [of "String ''reboot''" "[]" None "Object [(''value'', String ''0.5'')]" tv_host
            NaN watching el]
    by blast
  have "\<exists>p'. handleRemoteCommand [] None (String ''set-volume'')
               (Object [(''value'', Number (Fin 0.5))]) tv_host
               = Inr (tv_host\<lparr>playerRef := Some p'\<rparr>)
           \<and> volume p' = (case Fin 0.5 of Fin x \<Rightarrow> clamp x 0 1 | PosInf \<Rightarrow> 1 | _ \<Rightarrow> 0)
           \<and> (isMuted p' \<longleftrightarrow> volume p' = 0)"
    using n nn el pr
      handleRemoteCommand_tolerant
        [of "String ''reboot''" "[]" None
            "Object [(''value'', Number (Fin 0.5))]" tv_host "Fin 0.5" watching el]
    by blast
  then have applied: "\<exists>p'. handleRemoteCommand [] None (String ''set-volume'')
               (Object [(''value'', Number (Fin 0.5))]) tv_host
               = Inr (tv_host\<lparr>playerRef := Some p'\<rparr>)
           \<and> volume p' = 0.5"
    unfolding jsnum.case c by blast
  show ?thesis
    using k t unknown missing malformed applied by blast
qed

section \<open>Broadcast and controller removal\<close>

lemma send_other: "c' \<noteq> c \<Longrightarrow> sendStateToConnection snap c' store c = store c"
  by (simp add: sendStateToConnection_def)

lemma send_flags:
  "conn_open (sendStateToConnection snap c' store c) = conn_open (store c)
   \<and> close_called (sendStateToConnection snap c' store c) = close_called (store c)"
  by (simp add: sendStateToConnection_def)

lemma fold_send_flags:
  "conn_open (fold (sendStateToConnection snap) cs store c) = conn_open (store c)
   \<and> close_called (fold (sendStateToConnection snap) cs store c) = close_called (store c)"
  by (induction cs arbitrary: store) (simp_all add: send_flags)

lemma fold_send_closed:
  "\<not> conn_open (store c) \<Longrightarrow> fold (sendStateToConnection snap) cs store c = store c"
proof (induction cs arbitrary: store)
  case Nil
  show ?case by simp
next
  case (Cons a cs)
  have "sendStateToConnection snap a store c = store c"
    using Cons.prems by (cases "a = c") (simp_all add: sendStateToConnection_def)
  moreover have "\<not> conn_open (sendStateToConnection snap a store c)"
    using Cons.prems by (simp add: send_flags)
  ultimately show ?case
    using Cons.IH [of "sendStateToConnection snap a store"] by simp
qed

lemma fold_send_absent:
  "c \<notin> set cs \<Longrightarrow> fold (sendStateToConnection snap) cs store c = store c"
  by (induction cs arbitrary: store) (simp_all add: send_other)

lemma fold_send_count:
  "conn_open (store c) \<Longrightarrow>
   fold (sendStateToConnection snap) cs store c
     = (store c)\<lparr>sent := sent (store c) @ replicate (count_list cs c) snap\<rparr>"
proof (induction cs arbitrary: store)
  case Nil
  show ?case by simp
next
  case (Cons a cs)
  let ?s = "sendStateToConnection snap a store"
  have o: "conn_open (?s c)"
    using Cons.prems by (simp add: send_flags)
  have step: "fold (sendStateToConnection snap) (a # cs) store c
                = (?s c)\<lparr>sent := sent (?s c) @ replicate (count_list cs c) snap\<rparr>"
    using Cons.IH [of ?s, OF o] by simp
  show ?case
  proof (cases "a = c")
    case True
    have "?s c = (store c)\<lparr>sent := sent (store c) @ [snap]\<rparr>"
      using True Cons.prems by (simp add: sendStateToConnection_def)
    then show ?thesis
      using step True by (simp add: replicate_app_Cons_same)
  next
    case False
    then have "?s c = store c"
      by (simp add: send_other)
    then show ?thesis
      using step False by simp
  qed
qed

lemma count_list_distinct: "distinct cs \<Longrightarrow> c \<in> set cs \<Longrightarrow> count_list cs c = 1"
  by (induction cs) auto

lemma broadcast_conns:
  "conns (broadcastRemoteState h)
     = fold (sendStateToConnection (current_snapshot h)) (remoteConnections h) (conns h)"
  by (cases "remoteConnections h") (simp_all add: broadcastRemoteState_def)

lemma broadcast_frame: "broadcastRemoteState h = h\<lparr>conns := conns (broadcastRemoteState h)\<rparr>"
  by (simp add: broadcastRemoteState_def)

lemma broadcast_once:
  assumes "distinct (remoteConnections h)" and "c \<in> set (remoteConnections h)"
    and "conn_open (conns h c)"
  shows "conns (broadcastRemoteState h) c
           = (conns h c)\<lparr>sent := sent (conns h c) @ [current_snapshot h]\<rparr>"
proof -
  have "count_list (remoteConnections h) c = 1"
    using assms(1,2) by (rule count_list_distinct)
  then show ?thesis
    using fold_send_count [of "conns h" c "current_snapshot h" "remoteConnections h", OF assms(3)]
    by (simp add: broadcast_conns)
qed

lemma broadcast_skips:
  assumes "c \<notin> set (remoteConnections h) \<or> \<not> conn_open (conns h c)"
  shows "conns (broadcastRemoteState h) c = conns h c"
  using assms by (auto simp: broadcast_conns fold_send_absent fold_send_closed)

lemma cleanup_others:
  "c' \<noteq> c \<Longrightarrow>
   (c' \<in> set (remoteConnections (cleanupConnection c h))) = (c' \<in> set (remoteConnections h))"
  by (simp add: cleanupConnection_def)

lemma distinct_connections:
  "distinct (remoteConnections (initial_host st))"
  "distinct (remoteConnections h) \<Longrightarrow> c \<notin> set (remoteConnections h)
     \<Longrightarrow> distinct (remoteConnections (onConnection snap c h))"
  "distinct (remoteConnections h) \<Longrightarrow> distinct (remoteConnections (cleanupConnection c h))"
  "distinct (remoteConnections h) \<Longrightarrow> distinct (remoteConnections (broadcastRemoteState h))"
  "distinct (remoteConnections (stopRemoteHost st' h))"
  "distinct (remoteConnections h) \<Longrightarrow> distinct (remoteConnections (startRemoteHost r h))"
  by (simp_all add: initial_host_def onConnection_def cleanupConnection_def
      broadcastRemoteState_def stopRemoteHost_def startRemoteHost_def Let_def
      split: option.splits)


lemma cleanup_snapshot: "current_snapshot (cleanupConnection c h) = current_snapshot h"
  by (simp add: current_snapshot_def cleanupConnection_def filtered_view_def)

lemma current_snapshot_fields:
  "current_snapshot h
     = \<lparr>snap_channel = selectedChannel h, snap_player = playerState h,
        snap_nav = \<lparr>hasNext = has_next h, hasPrev = has_prev h\<rparr>\<rparr>"
  by (simp add: current_snapshot_def make_snapshot_def has_next_def has_prev_def)

text \<open>
  C6. A broadcast hands the full snapshot (channel, player state, navigation flags) to
  every registered controller whose connection is open exactly once, and to no other
  connection; it changes nothing else on the host. Removing a controller on close or
  error takes exactly that handle out of the list: every other handle stays registered,
  no connection object changes, and the Player, the reported player state and the
  selection are untouched. The next broadcast reaches the others exactly once and the
  removed one not at all.
\<close>

theorem broadcast_and_cleanup:
  "(distinct (remoteConnections h) \<and> c \<in> set (remoteConnections h) \<and> conn_open (conns h c) \<longrightarrow>
      conns (broadcastRemoteState h) c
        = (conns h c)\<lparr>sent := sent (conns h c) @ [current_snapshot h]\<rparr>)
   \<and> (c \<notin> set (remoteConnections h) \<or> \<not> conn_open (conns h c) \<longrightarrow>
        conns (broadcastRemoteState h) c = conns h c)
   \<and> broadcastRemoteState h = h\<lparr>conns := conns (broadcastRemoteState h)\<rparr>
   \<and> current_snapshot h
        = \<lparr>snap_channel = selectedChannel h, snap_player = playerState h,
           snap_nav = \<lparr>hasNext = has_next h, hasPrev = has_prev h\<rparr>\<rparr>
   \<and> c \<notin> set (remoteConnections (cleanupConnection c h))
   \<and> (c' \<noteq> c \<longrightarrow>
        (c' \<in> set (remoteConnections (cleanupConnection c h))) = (c' \<in> set (remoteConnections h)))
   \<and> conns (cleanupConnection c h) = conns h
   \<and> playerRef (cleanupConnection c h) = playerRef h
   \<and> playerState (cleanupConnection c h) = playerState h
   \<and> selectedChannel (cleanupConnection c h) = selectedChannel h
   \<and> remoteConnectedClients (cleanupConnection c h)
        = length (remoteConnections (cleanupConnection c h))
   \<and> (distinct (remoteConnections h) \<and> c' \<noteq> c \<and> c' \<in> set (remoteConnections h)
        \<and> conn_open (conns h c') \<longrightarrow>
        conns (broadcastRemoteState (cleanupConnection c h)) c'
          = (conns h c')\<lparr>sent := sent (conns h c') @ [current_snapshot h]\<rparr>)
   \<and> conns (broadcastRemoteState (cleanupConnection c h)) c = conns h c"
proof (intro conjI impI)
  assume "distinct (remoteConnections h) \<and> c \<in> set (remoteConnections h) \<and> conn_open (conns h c)"
  then show "conns (broadcastRemoteState h) c
               = (conns h c)\<lparr>sent := sent (conns h c) @ [current_snapshot h]\<rparr>"
    by (simp add: broadcast_once)
next
  assume "c \<notin> set (remoteConnections h) \<or> \<not> conn_open (conns h c)"
  then show "conns (broadcastRemoteState h) c = conns h c"
    by (rule broadcast_skips)
next
  show "broadcastRemoteState h = h\<lparr>conns := conns (broadcastRemoteState h)\<rparr>"
    by (rule broadcast_frame)
next
  show "current_snapshot h
          = \<lparr>snap_channel = selectedChannel h, snap_player = playerState h,
             snap_nav = \<lparr>hasNext = has_next h, hasPrev = has_prev h\<rparr>\<rparr>"
    by (rule current_snapshot_fields)
next
  show "c \<notin> set (remoteConnections (cleanupConnection c h))"
    by (simp add: cleanupConnection_def)
next
  assume "c' \<noteq> c"
  then show "(c' \<in> set (remoteConnections (cleanupConnection c h)))
               = (c' \<in> set (remoteConnections h))"
    by (rule cleanup_others)
next
  show "conns (cleanupConnection c h) = conns h"
    and "playerRef (cleanupConnection c h) = playerRef h"
    and "playerState (cleanupConnection c h) = playerState h"
    and "selectedChannel (cleanupConnection c h) = selectedChannel h"
    and "remoteConnectedClients (cleanupConnection c h)
           = length (remoteConnections (cleanupConnection c h))"
    by (simp_all add: cleanupConnection_def)
next
  assume a: "distinct (remoteConnections h) \<and> c' \<noteq> c \<and> c' \<in> set (remoteConnections h)
             \<and> conn_open (conns h c')"
  let ?h = "cleanupConnection c h"
  have "distinct (remoteConnections ?h)" and "c' \<in> set (remoteConnections ?h)"
    and "conn_open (conns ?h c')"
    using a by (simp_all add: cleanupConnection_def)
  then have "conns (broadcastRemoteState ?h) c'
               = (conns ?h c')\<lparr>sent := sent (conns ?h c') @ [current_snapshot ?h]\<rparr>"
    by (rule broadcast_once)
  then show "conns (broadcastRemoteState ?h) c'
               = (conns h c')\<lparr>sent := sent (conns h c') @ [current_snapshot h]\<rparr>"
    by (simp add: cleanup_snapshot) (simp add: cleanupConnection_def)
next
  have "c \<notin> set (remoteConnections (cleanupConnection c h))"
    by (simp add: cleanupConnection_def)
  then have "conns (broadcastRemoteState (cleanupConnection c h)) c
               = conns (cleanupConnection c h) c"
    by (simp add: broadcast_skips)
  then show "conns (broadcastRemoteState (cleanupConnection c h)) c = conns h c"
    by (simp add: cleanupConnection_def)
qed

theorem broadcast_and_cleanup_witness:
  "distinct (remoteConnections shared_host)
   \<and> sent (conns (broadcastRemoteState shared_host) 1) = [current_snapshot shared_host]
   \<and> sent (conns (broadcastRemoteState shared_host) 2) = [current_snapshot shared_host]
   \<and> sent (conns (broadcastRemoteState shared_host) 3) = []
   \<and> remoteConnections (cleanupConnection 1 shared_host) = [2, 3]
   \<and> sent (conns (broadcastRemoteState (cleanupConnection 1 shared_host)) 2)
       = [current_snapshot shared_host]
   \<and> sent (conns (broadcastRemoteState (cleanupConnection 1 shared_host)) 1) = []"
proof -
  have d: "distinct (remoteConnections shared_host)"
    and l: "remoteConnections shared_host = [1, 2, 3]"
    and o: "conn_open (conns shared_host 1)" "conn_open (conns shared_host 2)"
      "\<not> conn_open (conns shared_host 3)"
    and e: "sent (conns shared_host 1) = []" "sent (conns shared_host 2) = []"
      "sent (conns shared_host 3) = []"
    by (simp_all add: shared_host_def)
  have r: "remoteConnections (cleanupConnection 1 shared_host) = [2, 3]"
    by (simp add: cleanupConnection_def l)
  have n: "(2::nat) \<noteq> 1"
    by simp
  show ?thesis
    using d o e r n
      broadcast_and_cleanup [of shared_host 1 2]
      broadcast_and_cleanup [of shared_host 2 1]
      broadcast_and_cleanup [of shared_host 3 1]
    by (simp add: l)
qed

section \<open>The session identifier\<close>

lemma generateSessionId_length: "length (generateSessionId r) = min 6 (length r - 2)"
  by (simp add: generateSessionId_def slice_2_8_def toUpperCase_def)

lemma upper_char_alnum: "is_base36_digit c \<Longrightarrow> is_upper_alnum (upper_char c)"
  by (auto simp: is_base36_digit_def is_upper_alnum_def upper_char_def Let_def)

lemma generateSessionId_alnum:
  assumes "is_random36 r"
  shows "list_all is_upper_alnum (generateSessionId r)"
proof (cases "r = ''0''")
  case True
  then show ?thesis
    by (simp add: generateSessionId_def slice_2_8_def toUpperCase_def)
next
  case False
  then have "list_all is_base36_digit (drop 2 r)"
    using assms by (simp add: is_random36_def)
  then have "\<forall>c \<in> set (take 6 (drop 2 r)). is_base36_digit c"
    by (auto simp: list_all_iff dest: in_set_takeD)
  then show ?thesis
    by (simp add: generateSessionId_def slice_2_8_def toUpperCase_def list_all_iff
        upper_char_alnum)
qed

lemma startRemoteHost_persists:
  "remotePeer h = None \<Longrightarrow>
   stored_session_id (startRemoteHost r h) = Some (remoteSessionId (startRemoteHost r h))
   \<and> remotePeer (startRemoteHost r h) = Some (remoteSessionId (startRemoteHost r h))"
  by (simp add: startRemoteHost_def Let_def)

lemma startRemoteHost_first:
  "remoteSessionId (startRemoteHost r (initial_host None)) = generateSessionId r"
  by (simp add: startRemoteHost_def initial_host_def Let_def)

lemma startRemoteHost_reuses:
  "s \<noteq> [] \<Longrightarrow>
   remoteSessionId (startRemoteHost r (initial_host (Some s))) = s
   \<and> stored_session_id (startRemoteHost r (initial_host (Some s))) = Some s"
  by (simp add: startRemoteHost_def initial_host_def Let_def)

lemma startRemoteHost_running:
  "remotePeer h = Some i \<Longrightarrow> startRemoteHost r h = h\<lparr>remoteHostStatus := ''ready''\<rparr>"
  by (simp add: startRemoteHost_def)

text \<open>
  C7. The identifier is not of a fixed length. \<open>generateSessionId\<close> keeps the characters
  2 to 7 of \<open>Math.random().toString(36)\<close>, and that string is as long as the number
  needs: for 0.5 it is \<open>0.i\<close> and the identifier is \<open>I\<close>, one character, where a usual
  draw gives six. For 0 the string is \<open>0\<close> and the identifier is empty; the empty
  string is stored, reads as absent at the next start, and a new identifier is
  generated then.
\<close>

theorem generateSessionId_short:
  "is_random36 ''0.i'' \<and> generateSessionId ''0.i'' = ''I''
   \<and> remoteSessionId (startRemoteHost ''0.i'' (initial_host None)) = ''I''
   \<and> is_random36 ''0.4fzyo82mvyr'' \<and> generateSessionId ''0.4fzyo82mvyr'' = ''4FZYO8''
   \<and> length (generateSessionId ''0.i'') \<noteq> length (generateSessionId ''0.4fzyo82mvyr'')
   \<and> is_random36 ''0'' \<and> generateSessionId ''0'' = []
   \<and> stored_session_id (startRemoteHost ''0'' (initial_host None)) = Some []
   \<and> remoteSessionId (startRemoteHost ''0.4fzyo82mvyr'' (initial_host (Some [])))
       = ''4FZYO8''"
proof -
  have g: "generateSessionId ''0.i'' = ''I''"
    "generateSessionId ''0.4fzyo82mvyr'' = ''4FZYO8''"
    "generateSessionId ''0'' = []"
    by code_simp+
  have w: "is_random36 ''0.i''" "is_random36 ''0.4fzyo82mvyr''" "is_random36 ''0''"
    by code_simp+
  have s: "remoteSessionId (startRemoteHost ''0.i'' (initial_host None)) = ''I''"
    "stored_session_id (startRemoteHost ''0'' (initial_host None)) = Some []"
    "remoteSessionId (startRemoteHost ''0.4fzyo82mvyr'' (initial_host (Some [])))
       = ''4FZYO8''"
    by (simp_all add: startRemoteHost_def initial_host_def Let_def g)
  show ?thesis
    using g w s by simp
qed

section \<open>The controller page\<close>

text \<open>
  C9. When the controller's connection closes, the status becomes \<open>disconnected\<close>, the
  cached channel is cleared to none and the navigation flags to false, and the cached
  player fields stay as they were: the ones of the last snapshot received. The client
  id, the entered session code and the connection objects are untouched, and the
  connection reference is cleared if it is the closed connection.
\<close>

theorem onConnClose_clears:
  "connectionStatus (onConnClose r c) = ''disconnected''
   \<and> snap_channel (hostState (onConnClose r c)) = None
   \<and> snap_nav (hostState (onConnClose r c)) = \<lparr>hasNext = False, hasPrev = False\<rparr>
   \<and> snap_player (hostState (onConnClose r c)) = snap_player (hostState c)
   \<and> snap_player (hostState (onConnClose r (onConnData (State s) c))) = snap_player s
   \<and> clientId (onConnClose r c) = clientId c
   \<and> targetSession (onConnClose r c) = targetSession c
   \<and> links (onConnClose r c) = links c
   \<and> has_peer (onConnClose r c) = has_peer c
   \<and> connectionRef (onConnClose r c)
       = (if connectionRef c = Some r then None else connectionRef c)"
  by (simp add: onConnClose_def onConnData_def)

lemma sendCommand_connected:
  "connectionRef c = Some r \<Longrightarrow> conn_open (links c r) \<Longrightarrow>
   sent (links (sendCommand command payload c) r)
     = sent (links c r)
       @ [Object [(''type'', String ''command''), (''command'', String command),
                  (''payload'', payload)]]"
  by (simp add: sendCommand_def)

lemma sendCommand_idle: "not_connected c \<Longrightarrow> sendCommand command payload c = c"
  by (simp add: sendCommand_def not_connected_def split: option.splits)

text \<open>
  C10. On the controller, with no connection or with a connection that is not open,
  \<open>sendCommand\<close> and each of the eight command senders returns without sending a
  message and leaves the controller's state, connection objects included, as it was.
  No branch of \<open>sendCommand\<close> raises.
\<close>

theorem sendCommand_not_connected:
  assumes "not_connected c"
  shows "sendCommand command payload c = c \<and> invoke_sender s c = c"
proof
  show "sendCommand command payload c = c"
    using assms by (rule sendCommand_idle)
  show "invoke_sender s c = c"
    using assms by (cases s) (simp_all add: sendCommand_idle)
qed

theorem sendCommand_not_connected_witness:
  "not_connected idle_controller
   \<and> invoke_sender OnNext idle_controller = idle_controller
   \<and> not_connected connecting_controller
   \<and> connectionRef connecting_controller = Some 7
   \<and> invoke_sender (OnVolumeChange (Fin 0.5)) connecting_controller = connecting_controller
   \<and> sendCommand ''stop'' Undefined connecting_controller = connecting_controller"
proof -
  have a: "not_connected idle_controller"
    by (simp add: not_connected_def idle_controller_def initial_controller_def)
  have r: "connectionRef connecting_controller = Some 7"
    by (simp add: connecting_controller_def connectToSession_def idle_controller_def
        initial_controller_def destroyConnection_def)
  have b: "not_connected connecting_controller"
    by (simp add: not_connected_def r)
      (simp add: connecting_controller_def connectToSession_def idle_controller_def
        initial_controller_def destroyConnection_def)
  show ?thesis
    using a b r
      sendCommand_not_connected [OF a, of "''next''" Undefined OnNext]
      sendCommand_not_connected [OF b, of "''stop''" Undefined "OnVolumeChange (Fin 0.5)"]
    by simp
qed

end
